theory Spec2Isabelle
  imports Main "HOL-Library.Word" "HOL-Library.Sublist"
begin

section \<open>Strings of the JavaScript runtime\<close>

text \<open>
  A JavaScript string is a sequence of 16-bit code units. \<open>String.prototype.trim\<close> and the
  regular expression class \<open>\s\<close> are defined on code units outside ASCII too, so strings are
  lists of 16-bit words; \<open>lit\<close> embeds the ASCII literals of the source.
\<close>

type_synonym jschar = "16 word"
type_synonym jsstring = "jschar list"

definition lit :: "string \<Rightarrow> jsstring" where
  "lit s = map of_char s"

text \<open>
  The code units that ECMAScript calls WhiteSpace or LineTerminator: the set matched by
  \<open>\s\<close> and stripped by \<open>trim()\<close>.
\<close>

definition isWhiteSpace :: "jschar \<Rightarrow> bool" where
  "isWhiteSpace c =
     (c = 0x09 \<or> c = 0x0A \<or> c = 0x0B \<or> c = 0x0C \<or> c = 0x0D \<or> c = 0x20 \<or> c = 0xA0
      \<or> c = 0x1680 \<or> (0x2000 \<le> c \<and> c \<le> 0x200A) \<or> c = 0x2028 \<or> c = 0x2029
      \<or> c = 0x202F \<or> c = 0x205F \<or> c = 0x3000 \<or> c = 0xFEFF)"

definition trim :: "jsstring \<Rightarrow> jsstring" where
  "trim s = rev (dropWhile isWhiteSpace (rev (dropWhile isWhiteSpace s)))"

text \<open>\<open>Array.prototype.join\<close> on an array of strings.\<close>

fun join :: "jsstring \<Rightarrow> jsstring list \<Rightarrow> jsstring" where
  "join sep [] = []"
| "join sep [x] = x"
| "join sep (x # y # ys) = x @ sep @ join sep (y # ys)"

text \<open>\<open>s.replace(/\n/g, '<br>')\<close>: every line feed becomes the four code units of the tag.\<close>

definition replaceNewlines :: "jsstring \<Rightarrow> jsstring" where
  "replaceNewlines s = concat (map (\<lambda>c. if c = 0x0A then lit ''<br>'' else [c]) s)"

section \<open>The regular expression of \<open>isValidEmail\<close>\<close>

text \<open>
  The source pattern \<open>/^[^\s@]+@[^\s@]+\.[^\s@]+$/\<close> uses literal characters, a negated
  character class and the quantifier \<open>+\<close>, between the anchors \<open>^\<close> and \<open>$\<close>. A pattern
  of that shape is a list of pieces; \<open>matchHere\<close> is the backtracking matcher anchored at both
  ends (a \<open>+\<close> piece first tries to take one more code unit, then gives way to the rest of the
  pattern), which is what \<open>RegExp.prototype.test\<close> computes for an anchored pattern without flags.
\<close>

datatype classitem = Space | Single jschar

datatype atom = Exactly jschar | NoneOf "classitem list"

datatype piece = Once atom | OneOrMore atom

fun inItem :: "classitem \<Rightarrow> jschar \<Rightarrow> bool" where
  "inItem Space c = isWhiteSpace c"
| "inItem (Single x) c = (c = x)"

fun accepts :: "atom \<Rightarrow> jschar \<Rightarrow> bool" where
  "accepts (Exactly x) c = (c = x)"
| "accepts (NoneOf items) c = (\<not> list_ex (\<lambda>i. inItem i c) items)"

fun matchHere :: "piece list \<Rightarrow> jsstring \<Rightarrow> bool" where
  "matchHere [] s = (s = [])"
| "matchHere (p # ps) [] = False"
| "matchHere (Once a # ps) (c # cs) = (accepts a c \<and> matchHere ps cs)"
| "matchHere (OneOrMore a # ps) (c # cs) =
     (accepts a c \<and> (matchHere (OneOrMore a # ps) cs \<or> matchHere ps cs))"

definition emailRegex :: "piece list" where
  "emailRegex =
     [OneOrMore (NoneOf [Space, Single 0x40]), Once (Exactly 0x40),
      OneOrMore (NoneOf [Space, Single 0x40]), Once (Exactly 0x2E),
      OneOrMore (NoneOf [Space, Single 0x40])]"

definition isValidEmail :: "jsstring \<Rightarrow> bool" where
  "isValidEmail email = matchHere emailRegex email"

section \<open>Parsed request bodies\<close>

text \<open>
  The value \<open>request.json()\<close> resolves to. A number is an IEEE double; the handler only ever
  tests a number for truthiness and interpolates it into a template, so a number is given by
  these two observations: whether it is non-zero, and its decimal rendering. The property list
  of an object has one entry per own property. \<open>undefined\<close> is \<open>None\<close> of \<open>json option\<close>.
\<close>

datatype json =
    JNull
  | JBool bool
  | JNum bool jsstring
  | JStr jsstring
  | JArr "json list"
  | JObj "(jsstring \<times> json) list"

datatype jstype = TUndefined | TObject | TBoolean | TNumber | TString

fun truthy :: "json option \<Rightarrow> bool" where
  "truthy None = False"
| "truthy (Some JNull) = False"
| "truthy (Some (JBool b)) = b"
| "truthy (Some (JNum nonzero shown)) = nonzero"
| "truthy (Some (JStr s)) = (s \<noteq> [])"
| "truthy (Some (JArr xs)) = True"
| "truthy (Some (JObj kvs)) = True"

fun typeof :: "json option \<Rightarrow> jstype" where
  "typeof None = TUndefined"
| "typeof (Some JNull) = TObject"
| "typeof (Some (JBool b)) = TBoolean"
| "typeof (Some (JNum nonzero shown)) = TNumber"
| "typeof (Some (JStr s)) = TString"
| "typeof (Some (JArr xs)) = TObject"
| "typeof (Some (JObj kvs)) = TObject"

text \<open>
  Reading a property of a parsed value. The handler reads \<open>formType\<close>, \<open>name\<close>, \<open>email\<close>,
  \<open>phone\<close>, \<open>message\<close>, \<open>product\<close> and \<open>mobile\<close>; none of them is inherited from
  \<open>Object.prototype\<close> or \<open>Array.prototype\<close>, so on an array or a primitive the read is
  \<open>undefined\<close> and on an object it is the own property, if any.
\<close>

fun getProp :: "json \<Rightarrow> jsstring \<Rightarrow> json option" where
  "getProp (JObj kvs) k = map_of kvs k"
| "getProp v k = None"

text \<open>\<open>xs.includes(v)\<close> on an array of strings: a value that is not a string equals none.\<close>

fun arrayIncludes :: "jsstring list \<Rightarrow> json option \<Rightarrow> bool" where
  "arrayIncludes xs (Some (JStr s)) = (s \<in> set xs)"
| "arrayIncludes xs v = False"

section \<open>Validation\<close>

record ValidationResult =
  valid :: bool
  error :: "jsstring option"

definition VALID_PRODUCTS :: "jsstring list" where
  "VALID_PRODUCTS = [lit ''ARCHITECT'', lit ''LANDMARK'', lit ''SPOTLIGHT'', lit ''FUNDAMENTALS'']"

definition invalid :: "jsstring \<Rightarrow> ValidationResult" where
  "invalid msg = \<lparr>valid = False, error = Some msg\<rparr>"

definition ok :: ValidationResult where
  "ok = \<lparr>valid = True, error = None\<rparr>"

text \<open>
  The test \<open>!v || typeof v !== 'string' || v.trim() === ''\<close> of the source; the third
  disjunct is evaluated on strings only.
\<close>

definition blankString :: "json option \<Rightarrow> bool" where
  "blankString v =
     (\<not> truthy v \<or> typeof v \<noteq> TString \<or> (case v of Some (JStr s) \<Rightarrow> trim s = [] | _ \<Rightarrow> False))"

text \<open>\<open>!v || typeof v !== 'string' || !isValidEmail(v)\<close>.\<close>

definition badEmail :: "json option \<Rightarrow> bool" where
  "badEmail v =
     (\<not> truthy v \<or> typeof v \<noteq> TString
      \<or> (case v of Some (JStr s) \<Rightarrow> \<not> isValidEmail s | _ \<Rightarrow> False))"

definition isFormType :: "json \<Rightarrow> string \<Rightarrow> bool" where
  "isFormType formData t = (getProp formData (lit ''formType'') = Some (JStr (lit t)))"

text \<open>The two blocks guarded by the form type, each yielding the error it returns, if any.\<close>

definition contactSupportChecks :: "json \<Rightarrow> jsstring option" where
  "contactSupportChecks formData =
     (if isFormType formData ''contact'' \<or> isFormType formData ''support'' then
        (if blankString (getProp formData (lit ''phone''))
         then Some (lit ''phone is required for contact and support forms'')
         else if blankString (getProp formData (lit ''message''))
         then Some (lit ''message is required for contact and support forms'')
         else None)
      else None)"

definition quoteChecks :: "json \<Rightarrow> jsstring option" where
  "quoteChecks formData =
     (if isFormType formData ''quote'' then
        (if blankString (getProp formData (lit ''product''))
         then Some (lit ''product is required for quote form'')
         else if \<not> arrayIncludes VALID_PRODUCTS (getProp formData (lit ''product''))
         then Some (lit ''product must be one of: '' @ join (lit '', '') VALID_PRODUCTS)
         else None)
      else None)"

definition validateFormData :: "json \<Rightarrow> ValidationResult" where
  "validateFormData data =
     (if \<not> truthy (Some data) \<or> typeof (Some data) \<noteq> TObject
      then invalid (lit ''Invalid request data'')
      else if \<not> truthy (getProp data (lit ''formType''))
      then invalid (lit ''formType is required'')
      else if \<not> arrayIncludes [lit ''contact'', lit ''support'', lit ''quote'']
                 (getProp data (lit ''formType''))
      then invalid (lit ''Invalid formType. Must be contact, support, or quote'')
      else if blankString (getProp data (lit ''name''))
      then invalid (lit ''name is required'')
      else if badEmail (getProp data (lit ''email''))
      then invalid (lit ''Valid email is required'')
      else (case contactSupportChecks data of
              Some e \<Rightarrow> invalid e
            | None \<Rightarrow>
               (case quoteChecks data of
                  Some e \<Rightarrow> invalid e
                | None \<Rightarrow> ok)))"

section \<open>Exceptions and string conversion\<close>

text \<open>
  A thrown value is an instance of \<open>Error\<close>, given by its \<open>message\<close>, or some other
  value, given as plain data (a string, a number, an object with whatever properties it has).
  The \<open>TypeError\<close>s raised by the runtime itself carry the message texts of V8, the engine
  of Node.js.
\<close>

datatype thrown = ErrorInstance jsstring | NonError json

definition bindE :: "'e + 'a \<Rightarrow> ('a \<Rightarrow> 'e + 'b) \<Rightarrow> 'e + 'b" where
  "bindE m f = (case m of Inl e \<Rightarrow> Inl e | Inr x \<Rightarrow> f x)"

definition notPrimitive :: thrown where
  "notPrimitive = ErrorInstance (lit ''Cannot convert object to primitive value'')"

definition notReadable :: "string \<Rightarrow> string \<Rightarrow> thrown" where
  "notReadable v k =
     ErrorInstance (lit ''Cannot read properties of '' @ lit v @ lit '' (reading '' @ [0x27]
       @ lit k @ [0x27] @ lit '')'')"

definition notAFunction :: thrown where
  "notAFunction = ErrorInstance (lit ''data.message.replace is not a function'')"

text \<open>
  \<open>ToString\<close>, which a template literal applies to each interpolated value. An array is
  joined with commas, \<open>null\<close> elements giving the empty string. An object goes through
  \<open>toString\<close>: the inherited method answers \<open>[object Object]\<close>, but an own property of that
  name (never callable in a parsed body) hides it, and the conversion raises a \<open>TypeError\<close>.
\<close>

fun toStr :: "json \<Rightarrow> thrown + jsstring"
  and elemStrings :: "json list \<Rightarrow> thrown + jsstring list" where
  "toStr JNull = Inr (lit ''null'')"
| "toStr (JBool b) = Inr (if b then lit ''true'' else lit ''false'')"
| "toStr (JNum nonzero shown) = Inr shown"
| "toStr (JStr s) = Inr s"
| "toStr (JArr xs) =
     (case elemStrings xs of Inl e \<Rightarrow> Inl e | Inr ss \<Rightarrow> Inr (join (lit '','') ss))"
| "toStr (JObj kvs) =
     (if map_of kvs (lit ''toString'') \<noteq> None then Inl notPrimitive
      else Inr (lit ''[object Object]''))"
| "elemStrings [] = Inr []"
| "elemStrings (JNull # xs) =
     (case elemStrings xs of Inl e \<Rightarrow> Inl e | Inr ss \<Rightarrow> Inr ([] # ss))"
| "elemStrings (x # xs) =
     (case toStr x of
        Inl e \<Rightarrow> Inl e
      | Inr s \<Rightarrow> (case elemStrings xs of Inl e \<Rightarrow> Inl e | Inr ss \<Rightarrow> Inr (s # ss)))"

text \<open>\<open>${v}\<close> inside a template literal.\<close>

definition interp :: "json option \<Rightarrow> thrown + jsstring" where
  "interp v = (case v of None \<Rightarrow> Inr (lit ''undefined'') | Some x \<Rightarrow> toStr x)"

text \<open>\<open>data.message.replace(/\n/g, '<br>')\<close>: only a string has the method.\<close>

definition messageReplace :: "json option \<Rightarrow> thrown + jsstring" where
  "messageReplace v =
     (case v of
        None \<Rightarrow> Inl (notReadable ''undefined'' ''replace'')
      | Some JNull \<Rightarrow> Inl (notReadable ''null'' ''replace'')
      | Some (JStr s) \<Rightarrow> Inr (replaceNewlines s)
      | Some _ \<Rightarrow> Inl notAFunction)"

section \<open>Formatting\<close>

record EmailContent =
  subject :: jsstring
  html :: jsstring
  text_body :: jsstring

text \<open>
  \<open>formatEmailContent\<close>, on the value the handler passes to it (the cast to \<open>FormData\<close> is
  erased at run time). The interpolations are evaluated in the order of the source: subject,
  HTML body, text body. The field \<open>text\<close> of the result is \<open>text_body\<close> here, \<open>text\<close>
  being a keyword.
\<close>

definition formatEmailContent :: "json \<Rightarrow> thrown + EmailContent" where
  "formatEmailContent data =
     (if data = JNull then Inl (notReadable ''null'' ''formType'')
      else if isFormType data ''contact'' then
        bindE (interp (getProp data (lit ''name''))) (\<lambda>name.
        bindE (interp (getProp data (lit ''email''))) (\<lambda>email.
        bindE (interp (getProp data (lit ''phone''))) (\<lambda>phone.
        bindE (messageReplace (getProp data (lit ''message''))) (\<lambda>messageHtml.
        bindE (interp (getProp data (lit ''message''))) (\<lambda>message.
        Inr \<lparr>subject = lit ''New Contact Form Submission - '' @ name,
             html = lit ''\<newline>      <h2>New Contact Form Submission</h2>\<newline>      <p><strong>Name:</strong> ''
               @ name @ lit ''</p>\<newline>      <p><strong>Email:</strong> ''
               @ email @ lit ''</p>\<newline>      <p><strong>Phone:</strong> ''
               @ phone @ lit ''</p>\<newline>      <p><strong>Message:</strong></p>\<newline>      <p>''
               @ messageHtml @ lit ''</p>\<newline>    '',
             text_body = lit ''\<newline>New Contact Form Submission\<newline>\<newline>Name: ''
               @ name @ lit ''\<newline>Email: ''
               @ email @ lit ''\<newline>Phone: ''
               @ phone @ lit ''\<newline>Message: ''
               @ message @ lit ''\<newline>    ''\<rparr>)))))
      else if isFormType data ''support'' then
        bindE (interp (getProp data (lit ''name''))) (\<lambda>name.
        bindE (interp (getProp data (lit ''email''))) (\<lambda>email.
        bindE (interp (getProp data (lit ''phone''))) (\<lambda>phone.
        bindE (messageReplace (getProp data (lit ''message''))) (\<lambda>messageHtml.
        bindE (interp (getProp data (lit ''message''))) (\<lambda>message.
        Inr \<lparr>subject = lit ''New Support Request - '' @ name,
             html = lit ''\<newline>      <h2>New Support Request</h2>\<newline>      <p><strong>Name:</strong> ''
               @ name @ lit ''</p>\<newline>      <p><strong>Email:</strong> ''
               @ email @ lit ''</p>\<newline>      <p><strong>Phone:</strong> ''
               @ phone @ lit ''</p>\<newline>      <p><strong>Message:</strong></p>\<newline>      <p>''
               @ messageHtml @ lit ''</p>\<newline>    '',
             text_body = lit ''\<newline>New Support Request\<newline>\<newline>Name: ''
               @ name @ lit ''\<newline>Email: ''
               @ email @ lit ''\<newline>Phone: ''
               @ phone @ lit ''\<newline>Message: ''
               @ message @ lit ''\<newline>    ''\<rparr>)))))
      else if isFormType data ''quote'' then
        bindE (interp (getProp data (lit ''name''))) (\<lambda>name.
        bindE (interp (getProp data (lit ''product''))) (\<lambda>product.
        bindE (interp (getProp data (lit ''email''))) (\<lambda>email.
        bindE (if truthy (getProp data (lit ''mobile'')) then interp (getProp data (lit ''mobile''))
               else Inr []) (\<lambda>mobile.
        Inr \<lparr>subject = lit ''New Quote Request - '' @ name @ lit '' - '' @ product,
             html = lit ''\<newline>      <h2>New Quote Request</h2>\<newline>      <p><strong>Name:</strong> ''
               @ name @ lit ''</p>\<newline>      <p><strong>Email:</strong> ''
               @ email @ lit ''</p>\<newline>      ''
               @ (if truthy (getProp data (lit ''mobile''))
                  then lit ''<p><strong>Mobile:</strong> '' @ mobile @ lit ''</p>'' else [])
               @ lit ''\<newline>      <p><strong>Product:</strong> ''
               @ product @ lit ''</p>\<newline>    '',
             text_body = lit ''\<newline>New Quote Request\<newline>\<newline>Name: ''
               @ name @ lit ''\<newline>Email: ''
               @ email @ lit ''\<newline>''
               @ (if truthy (getProp data (lit ''mobile''))
                  then lit ''Mobile: '' @ mobile @ lit ''\<newline>'' else [])
               @ lit ''Product: ''
               @ product @ lit ''\<newline>    ''\<rparr>))))
      else Inr \<lparr>subject = [], html = [], text_body = []\<rparr>)"

section \<open>CORS headers\<close>

definition allowedOrigins :: "jsstring list" where
  "allowedOrigins =
     [lit ''http://localhost:3000'', lit ''https://caduae.com'', lit ''https://www.caduae.com'']"

text \<open>
  \<open>nodeEnv\<close> is \<open>process.env.NODE_ENV\<close>; \<open>origin\<close> is the request's \<open>Origin\<close> header, or
  \<open>None\<close> for \<open>null\<close>.
\<close>

definition getCorsHeaders :: "jsstring option \<Rightarrow> jsstring option \<Rightarrow> (jsstring \<times> jsstring) list" where
  "getCorsHeaders nodeEnv origin =
     (let allowedOrigin =
        (case origin of
           Some orig \<Rightarrow>
             if orig \<noteq> [] \<and> orig \<in> set allowedOrigins then orig
             else if nodeEnv = Some (lit ''production'') then lit ''https://caduae.com''
             else lit ''*''
         | None \<Rightarrow>
             if nodeEnv = Some (lit ''production'') then lit ''https://caduae.com''
             else lit ''*'')
      in [(lit ''Access-Control-Allow-Origin'', allowedOrigin),
          (lit ''Access-Control-Allow-Methods'', lit ''POST, OPTIONS''),
          (lit ''Access-Control-Allow-Headers'', lit ''Content-Type''),
          (lit ''Access-Control-Max-Age'', lit ''86400'')])"

section \<open>The POST handler\<close>

text \<open>The argument of \<open>transporter.sendMail\<close>; \<open>replyTo\<close> is the body's \<open>email\<close> property.\<close>

record SendMailOptions =
  mail_from :: jsstring
  mail_to :: jsstring
  mail_subject :: jsstring
  mail_html :: jsstring
  mail_text :: jsstring
  mail_replyTo :: "json option"

text \<open>
  What the handler does to the outside: calls of \<open>transporter.sendMail\<close> and of
  \<open>console.error\<close>, in the order they happen. A request is its \<open>Origin\<close> header and
  the outcome of parsing its body; a response is the status code, the two fields of the JSON
  body and the headers passed to \<open>NextResponse.json\<close>.
\<close>

datatype effect = SendMail SendMailOptions | ConsoleError thrown

record Request =
  origin :: "jsstring option"
  json_body :: "thrown + json"

record Response =
  status_code :: nat
  status :: jsstring
  message :: jsstring
  headers :: "(jsstring \<times> jsstring) list"

text \<open>\<open>validation.error || 'Validation failed'\<close>.\<close>

definition errorOrDefault :: "jsstring option \<Rightarrow> jsstring" where
  "errorOrDefault e =
     (case e of None \<Rightarrow> lit ''Validation failed''
      | Some m \<Rightarrow> if m \<noteq> [] then m else lit ''Validation failed'')"

text \<open>\<open>error instanceof Error ? error.message : '...'\<close>.\<close>

definition errorMessage :: "thrown \<Rightarrow> jsstring" where
  "errorMessage err =
     (case err of
        ErrorInstance m \<Rightarrow> m
      | NonError v \<Rightarrow>
          lit ''An error occurred while sending your message. Please try again later.'')"

text \<open>
  The \<open>try\<close> block: the effects performed, with the response returned or the exception
  raised. \<open>json_body\<close> is the outcome of \<open>await request.json()\<close>; \<open>sendMail\<close> is the relay:
  \<open>None\<close> when the awaited promise resolves, \<open>Some e\<close> when it rejects with \<open>e\<close>.
\<close>

definition tryBlock ::
  "(SendMailOptions \<Rightarrow> thrown option) \<Rightarrow> (jsstring \<times> jsstring) list \<Rightarrow> Request
     \<Rightarrow> effect list \<times> (thrown + Response)" where
  "tryBlock sendMail corsHeaders request =
     (case json_body request of
        Inl e \<Rightarrow> ([], Inl e)
      | Inr body \<Rightarrow>
          (let validation = validateFormData body in
           if \<not> valid validation then
             ([], Inr \<lparr>status_code = 400, status = lit ''error'',
                       message = errorOrDefault (error validation), headers = corsHeaders\<rparr>)
           else
             (case formatEmailContent body of
                Inl e \<Rightarrow> ([], Inl e)
              | Inr content \<Rightarrow>
                  (let mail = \<lparr>mail_from = lit ''noreply@caduae.com'',
                              mail_to = lit ''info@caduae.com'',
                              mail_subject = subject content,
                              mail_html = html content,
                              mail_text = text_body content,
                              mail_replyTo = getProp body (lit ''email'')\<rparr>
                   in case sendMail mail of
                        Some e \<Rightarrow> ([SendMail mail], Inl e)
                      | None \<Rightarrow>
                          ([SendMail mail],
                           Inr \<lparr>status_code = 200, status = lit ''success'',
                                message = lit ''Thank you! Your message has been sent successfully.'',
                                headers = corsHeaders\<rparr>)))))"

definition POST ::
  "jsstring option \<Rightarrow> (SendMailOptions \<Rightarrow> thrown option) \<Rightarrow> Request \<Rightarrow> Response \<times> effect list" where
  "POST nodeEnv sendMail request =
     (let corsHeaders = getCorsHeaders nodeEnv (origin request) in
      case tryBlock sendMail corsHeaders request of
        (effects, Inr response) \<Rightarrow> (response, effects)
      | (effects, Inl err) \<Rightarrow>
          (\<lparr>status_code = 500, status = lit ''error'', message = errorMessage err,
            headers = corsHeaders\<rparr>,
           effects @ [ConsoleError err]))"

section \<open>Vocabulary of the specification\<close>

subsection \<open>The email pattern in words\<close>

text \<open>
  A code unit that is neither white space nor \<open>@\<close>, and the shape the specification
  describes: such code units, \<open>@\<close>, such code units, a dot, such code units, each run
  non-empty.
\<close>

definition plainChar :: "jschar \<Rightarrow> bool" where
  "plainChar c = (\<not> isWhiteSpace c \<and> c \<noteq> 0x40)"

definition specEmailPattern :: "jsstring \<Rightarrow> bool" where
  "specEmailPattern s =
     (\<exists>a b c. s = a @ [0x40] @ b @ [0x2E] @ c
        \<and> a \<noteq> [] \<and> list_all plainChar a
        \<and> b \<noteq> [] \<and> list_all plainChar b
        \<and> c \<noteq> [] \<and> list_all plainChar c)"

subsection \<open>The validation rules\<close>

text \<open>
  The rules in the order of the specification, each with the error reported when it fails.
  An array is an object value; a form type is present when it is truthy, so not \<open>null\<close>,
  \<open>false\<close>, zero or the empty string; a field is given when it is a string that is not
  blank after trimming. The phone and message rules bind contact and support forms only, the
  product rules quotes only.
\<close>

definition isObjectValue :: "json \<Rightarrow> bool" where
  "isObjectValue d = (case d of JArr xs \<Rightarrow> True | JObj kvs \<Rightarrow> True | _ \<Rightarrow> False)"

definition nonBlank :: "json option \<Rightarrow> bool" where
  "nonBlank v = (case v of Some (JStr s) \<Rightarrow> trim s \<noteq> [] | _ \<Rightarrow> False)"

definition formTypePresent :: "json \<Rightarrow> bool" where
  "formTypePresent d = truthy (getProp d (lit ''formType''))"

definition formTypeKnown :: "json \<Rightarrow> bool" where
  "formTypeKnown d =
     (isFormType d ''contact'' \<or> isFormType d ''support'' \<or> isFormType d ''quote'')"

definition nameGiven :: "json \<Rightarrow> bool" where
  "nameGiven d = nonBlank (getProp d (lit ''name''))"

definition emailGiven :: "json \<Rightarrow> bool" where
  "emailGiven d = (case getProp d (lit ''email'') of Some (JStr s) \<Rightarrow> isValidEmail s | _ \<Rightarrow> False)"

definition phoneGiven :: "json \<Rightarrow> bool" where
  "phoneGiven d =
     (if isFormType d ''contact'' \<or> isFormType d ''support''
      then nonBlank (getProp d (lit ''phone'')) else True)"

definition messageGiven :: "json \<Rightarrow> bool" where
  "messageGiven d =
     (if isFormType d ''contact'' \<or> isFormType d ''support''
      then nonBlank (getProp d (lit ''message'')) else True)"

definition productGiven :: "json \<Rightarrow> bool" where
  "productGiven d =
     (if isFormType d ''quote'' then nonBlank (getProp d (lit ''product'')) else True)"

definition productKnown :: "json \<Rightarrow> bool" where
  "productKnown d =
     (if isFormType d ''quote''
      then (case getProp d (lit ''product'') of
              Some (JStr s) \<Rightarrow> s \<in> {lit ''ARCHITECT'', lit ''LANDMARK'', lit ''SPOTLIGHT'', lit ''FUNDAMENTALS''}
            | _ \<Rightarrow> False)
      else True)"

definition validationRules :: "((json \<Rightarrow> bool) \<times> jsstring) list" where
  "validationRules =
     [(isObjectValue, lit ''Invalid request data''),
      (formTypePresent, lit ''formType is required''),
      (formTypeKnown, lit ''Invalid formType. Must be contact, support, or quote''),
      (nameGiven, lit ''name is required''),
      (emailGiven, lit ''Valid email is required''),
      (phoneGiven, lit ''phone is required for contact and support forms''),
      (messageGiven, lit ''message is required for contact and support forms''),
      (productGiven, lit ''product is required for quote form''),
      (productKnown, lit ''product must be one of: ARCHITECT, LANDMARK, SPOTLIGHT, FUNDAMENTALS'')]"

text \<open>Applying a list of rules in order: the error of the first one that fails.\<close>

fun firstFailure :: "((json \<Rightarrow> bool) \<times> jsstring) list \<Rightarrow> json \<Rightarrow> ValidationResult" where
  "firstFailure [] d = ok"
| "firstFailure ((holds, err) # rules) d = (if holds d then firstFailure rules d else invalid err)"

subsection \<open>Runs of the handler\<close>

text \<open>
  The relay calls among the effects of a run; the message the handler hands to the relay; its
  two final responses.
\<close>

fun relayCalls :: "effect list \<Rightarrow> SendMailOptions list" where
  "relayCalls [] = []"
| "relayCalls (SendMail mail # es) = mail # relayCalls es"
| "relayCalls (ConsoleError e # es) = relayCalls es"

definition composedMail :: "EmailContent \<Rightarrow> json \<Rightarrow> SendMailOptions" where
  "composedMail content body =
     \<lparr>mail_from = lit ''noreply@caduae.com'', mail_to = lit ''info@caduae.com'',
      mail_subject = subject content, mail_html = html content, mail_text = text_body content,
      mail_replyTo = getProp body (lit ''email'')\<rparr>"

definition successResponse :: "(jsstring \<times> jsstring) list \<Rightarrow> Response" where
  "successResponse cors =
     \<lparr>status_code = 200, status = lit ''success'',
      message = lit ''Thank you! Your message has been sent successfully.'', headers = cors\<rparr>"

definition failureResponse :: "jsstring \<Rightarrow> (jsstring \<times> jsstring) list \<Rightarrow> Response" where
  "failureResponse msg cors =
     \<lparr>status_code = 500, status = lit ''error'', message = msg, headers = cors\<rparr>"

text \<open>
  Formatting a quote converts a truthy \<open>mobile\<close> to a string. The conversion succeeds
  for every string, number and boolean; it raises for an object with an own \<open>toString\<close>
  property and for an array that holds one.
\<close>

definition mobileFormats :: "json \<Rightarrow> bool" where
  "mobileFormats body =
     (if isFormType body ''quote'' \<and> truthy (getProp body (lit ''mobile''))
      then (case interp (getProp body (lit ''mobile'')) of Inl e \<Rightarrow> False | Inr s \<Rightarrow> True)
      else True)"

subsection \<open>Lines of a text body\<close>

text \<open>
  The lines of a string are its pieces between line terminators (line feed, carriage return,
  and the line and paragraph separators); \<open>hasLineStarting p t\<close> says that some line of
  \<open>t\<close> starts with \<open>p\<close>.
\<close>

definition isLineTerminator :: "jschar \<Rightarrow> bool" where
  "isLineTerminator c = (c = 0x0A \<or> c = 0x0D \<or> c = 0x2028 \<or> c = 0x2029)"

fun splitLines :: "jsstring \<Rightarrow> jsstring list" where
  "splitLines [] = [[]]"
| "splitLines (c # cs) =
     (if isLineTerminator c then [] # splitLines cs
      else (case splitLines cs of [] \<Rightarrow> [[c]] | l # ls \<Rightarrow> (c # l) # ls))"

definition hasLineStarting :: "jsstring \<Rightarrow> jsstring \<Rightarrow> bool" where
  "hasLineStarting p t = list_ex (prefix p) (splitLines t)"

text \<open>Some line of \<open>t\<close> after its first starts with \<open>p\<close>.\<close>

definition hasLaterLineStarting :: "jsstring \<Rightarrow> jsstring \<Rightarrow> bool" where
  "hasLaterLineStarting p t = list_ex (prefix p) (tl (splitLines t))"

subsection \<open>Sample requests\<close>

text \<open>A quote with a blank name and no email.\<close>

definition blankNameQuote :: json where
  "blankNameQuote =
     JObj [(lit ''formType'', JStr (lit ''quote'')), (lit ''name'', JStr (lit ''  ''))]"

text \<open>The value of a response header.\<close>

definition header :: "(jsstring \<times> jsstring) list \<Rightarrow> string \<Rightarrow> jsstring option" where
  "header hs name = map_of hs (lit name)"

text \<open>A relay that accepts every message, and one that rejects every message with \<open>e\<close>.\<close>

definition relayResolves :: "SendMailOptions \<Rightarrow> thrown option" where
  "relayResolves mail = None"

definition relayRejects :: "thrown \<Rightarrow> SendMailOptions \<Rightarrow> thrown option" where
  "relayRejects e mail = Some e"

text \<open>
  The message of a failure, in the words of the specification: the message of an \<open>Error\<close>,
  or the \<open>message\<close> property of any other thrown value, when it is a string; an empty
  string is no message. \<open>claimedMessage\<close> is the body message the specification
  describes: the failure's message when present, else the fallback text.
\<close>

definition failureMessage :: "thrown \<Rightarrow> jsstring option" where
  "failureMessage err =
     (case err of
        ErrorInstance m \<Rightarrow> if m \<noteq> [] then Some m else None
      | NonError v \<Rightarrow>
          (case getProp v (lit ''message'') of
             Some (JStr m) \<Rightarrow> if m \<noteq> [] then Some m else None
           | _ \<Rightarrow> None))"

definition claimedMessage :: "thrown \<Rightarrow> jsstring" where
  "claimedMessage err =
     (case failureMessage err of
        Some m \<Rightarrow> m
      | None \<Rightarrow> lit ''An error occurred while sending your message. Please try again later.'')"

text \<open>The plain object \<open>{"message":"SMTP down"}\<close>.\<close>

definition messageObject :: json where
  "messageObject = JObj [(lit ''message'', JStr (lit ''SMTP down''))]"

text \<open>The contact form of the specification's example, and the email composed from it.\<close>

definition janeContact :: json where
  "janeContact =
     JObj [(lit ''formType'', JStr (lit ''contact'')),
           (lit ''name'', JStr (lit ''Jane'')),
           (lit ''email'', JStr (lit ''jane@x.com'')),
           (lit ''phone'', JStr (lit ''123'')),
           (lit ''message'', JStr (lit ''Hi\<newline>There''))]"

definition janeContent :: EmailContent where
  "janeContent =
     \<lparr>subject = lit ''New Contact Form Submission - Jane'',
      html = lit ''\<newline>      <h2>New Contact Form Submission</h2>\<newline>      <p><strong>Name:</strong> Jane</p>\<newline>      <p><strong>Email:</strong> jane@x.com</p>\<newline>      <p><strong>Phone:</strong> 123</p>\<newline>      <p><strong>Message:</strong></p>\<newline>      <p>Hi<br>There</p>\<newline>    '',
      text_body = lit ''\<newline>New Contact Form Submission\<newline>\<newline>Name: Jane\<newline>Email: jane@x.com\<newline>Phone: 123\<newline>Message: Hi\<newline>There\<newline>    ''\<rparr>"

text \<open>
  The body \<open>{"formType":"quote","name":"A","email":"a@b.co","product":"ARCHITECT",
  "mobile":{"toString":null}}\<close>.
\<close>

definition toStringMobileQuote :: json where
  "toStringMobileQuote =
     JObj [(lit ''formType'', JStr (lit ''quote'')),
           (lit ''name'', JStr (lit ''A'')),
           (lit ''email'', JStr (lit ''a@b.co'')),
           (lit ''product'', JStr (lit ''ARCHITECT'')),
           (lit ''mobile'', JObj [(lit ''toString'', JNull)])]"

text \<open>A payload with its \<open>mobile\<close> property removed.\<close>

fun withoutMobile :: "json \<Rightarrow> json" where
  "withoutMobile (JObj kvs) = JObj (filter (\<lambda>kv. fst kv \<noteq> lit ''mobile'') kvs)"
| "withoutMobile v = v"

text \<open>A quote without \<open>mobile\<close> whose name runs over two lines.\<close>

definition injectedQuote :: json where
  "injectedQuote =
     JObj [(lit ''formType'', JStr (lit ''quote'')),
           (lit ''name'', JStr (lit ''A\<newline>Mobile: 1'')),
           (lit ''email'', JStr (lit ''a@b.co'')),
           (lit ''product'', JStr (lit ''ARCHITECT''))]"

text \<open>A quote without \<open>mobile\<close>, and the same quote with the mobile \<open>m\<close>.\<close>

definition plainQuote :: json where
  "plainQuote =
     JObj [(lit ''formType'', JStr (lit ''quote'')),
           (lit ''name'', JStr (lit ''A'')),
           (lit ''email'', JStr (lit ''a@b.co'')),
           (lit ''product'', JStr (lit ''ARCHITECT''))]"

definition mobileQuote :: "jsstring \<Rightarrow> json" where
  "mobileQuote m =
     JObj [(lit ''formType'', JStr (lit ''quote'')),
           (lit ''name'', JStr (lit ''A'')),
           (lit ''email'', JStr (lit ''a@b.co'')),
           (lit ''mobile'', JStr m),
           (lit ''product'', JStr (lit ''ARCHITECT''))]"

text \<open>A quote whose \<open>mobile\<close> is the number 971501234567.\<close>

definition numberMobileQuote :: json where
  "numberMobileQuote =
     JObj [(lit ''formType'', JStr (lit ''quote'')),
           (lit ''name'', JStr (lit ''A'')),
           (lit ''email'', JStr (lit ''a@b.co'')),
           (lit ''mobile'', JNum True (lit ''971501234567'')),
           (lit ''product'', JStr (lit ''ARCHITECT''))]"

section \<open>Properties\<close>

subsection \<open>The matcher and the pattern\<close>

lemma matchHere_Once:
  "matchHere (Once a # ps) s = (\<exists>c v. s = c # v \<and> accepts a c \<and> matchHere ps v)"
  by (cases s) auto

lemma matchHere_OneOrMore:
  "matchHere (OneOrMore a # ps) s =
     (\<exists>u v. s = u @ v \<and> u \<noteq> [] \<and> list_all (accepts a) u \<and> matchHere ps v)"
proof (induction s)
  case Nil
  then show ?case by simp
next
  case (Cons c cs)
  show ?case
  proof
    assume m: "matchHere (OneOrMore a # ps) (c # cs)"
    then have ac: "accepts a c" by simp
    from m have "matchHere (OneOrMore a # ps) cs \<or> matchHere ps cs" by simp
    then show "\<exists>u v. c # cs = u @ v \<and> u \<noteq> [] \<and> list_all (accepts a) u \<and> matchHere ps v"
    proof
      assume "matchHere (OneOrMore a # ps) cs"
      with Cons.IH obtain u v where "cs = u @ v" "list_all (accepts a) u" "matchHere ps v"
        by blast
      with ac have "c # cs = (c # u) @ v \<and> c # u \<noteq> [] \<and> list_all (accepts a) (c # u) \<and> matchHere ps v"
        by simp
      then show ?thesis by blast
    next
      assume "matchHere ps cs"
      with ac have "c # cs = [c] @ cs \<and> [c] \<noteq> [] \<and> list_all (accepts a) [c] \<and> matchHere ps cs"
        by simp
      then show ?thesis by blast
    qed
  next
    assume "\<exists>u v. c # cs = u @ v \<and> u \<noteq> [] \<and> list_all (accepts a) u \<and> matchHere ps v"
    then obtain u v where uv: "c # cs = u @ v" "u \<noteq> []" "list_all (accepts a) u" "matchHere ps v"
      by blast
    then obtain u' where u: "u = c # u'" by (cases u) auto
    with uv have cs: "cs = u' @ v" and ac: "accepts a c" and au: "list_all (accepts a) u'"
      by auto
    show "matchHere (OneOrMore a # ps) (c # cs)"
    proof (cases u')
      case Nil
      with cs uv ac show ?thesis by simp
    next
      case (Cons d ds)
      with cs au uv have "\<exists>u v. cs = u @ v \<and> u \<noteq> [] \<and> list_all (accepts a) u \<and> matchHere ps v"
        by blast
      with Cons.IH ac show ?thesis by simp
    qed
  qed
qed

lemma accepts_plain: "accepts (NoneOf [Space, Single 0x40]) = plainChar"
  by (rule ext) (simp add: plainChar_def)

lemma matchHere_emailRegex:
  "matchHere emailRegex s =
     (\<exists>a r1. s = a @ r1 \<and> a \<noteq> [] \<and> list_all plainChar a \<and>
       (\<exists>x r2. r1 = x # r2 \<and> x = 0x40 \<and>
         (\<exists>b r3. r2 = b @ r3 \<and> b \<noteq> [] \<and> list_all plainChar b \<and>
           (\<exists>y r4. r3 = y # r4 \<and> y = 0x2E \<and>
             (\<exists>c r5. r4 = c @ r5 \<and> c \<noteq> [] \<and> list_all plainChar c \<and> r5 = [])))))"
  unfolding emailRegex_def
  by (simp only: matchHere_OneOrMore matchHere_Once accepts_plain accepts.simps matchHere.simps)

lemma isValidEmail_spec: "isValidEmail s = specEmailPattern s"
proof
  assume "isValidEmail s"
  then show "specEmailPattern s"
    unfolding isValidEmail_def matchHere_emailRegex specEmailPattern_def
    by auto
next
  assume "specEmailPattern s"
  then obtain a b c where "s = a @ [0x40] @ b @ [0x2E] @ c" "a \<noteq> []" "list_all plainChar a"
     "b \<noteq> []" "list_all plainChar b" "c \<noteq> []" "list_all plainChar c"
    unfolding specEmailPattern_def by blast
  then have s: "s = a @ 0x40 # b @ 0x2E # c @ []" and ne: "a \<noteq> []" "b \<noteq> []" "c \<noteq> []"
    and pl: "list_all (accepts (NoneOf [Space, Single 0x40])) a"
      "list_all (accepts (NoneOf [Space, Single 0x40])) b"
      "list_all (accepts (NoneOf [Space, Single 0x40])) c"
    by (simp_all add: accepts_plain)
  have 5: "matchHere [OneOrMore (NoneOf [Space, Single 0x40])] (c @ [])"
    using ne(3) pl(3) matchHere_OneOrMore by fastforce
  have 4: "matchHere [Once (Exactly 0x2E), OneOrMore (NoneOf [Space, Single 0x40])] (0x2E # c @ [])"
    using 5 by simp
  have 3: "matchHere [OneOrMore (NoneOf [Space, Single 0x40]), Once (Exactly 0x2E),
      OneOrMore (NoneOf [Space, Single 0x40])] (b @ 0x2E # c @ [])"
    using 4 ne(2) pl(2) matchHere_OneOrMore by blast
  have 2: "matchHere [Once (Exactly 0x40), OneOrMore (NoneOf [Space, Single 0x40]), Once (Exactly 0x2E),
      OneOrMore (NoneOf [Space, Single 0x40])] (0x40 # b @ 0x2E # c @ [])"
    using 3 by simp
  have "matchHere emailRegex (a @ 0x40 # b @ 0x2E # c @ [])"
    unfolding emailRegex_def using 2 ne(1) pl(1) matchHere_OneOrMore by blast
  then show "isValidEmail s"
    unfolding isValidEmail_def s .
qed

subsection \<open>Validation as an ordered list of rules\<close>

lemma trim_Nil [simp]: "trim [] = []"
  by (simp add: trim_def)

lemma blankString_nonBlank: "blankString v = (\<not> nonBlank v)"
  by (cases v rule: truthy.cases) (auto simp: blankString_def nonBlank_def)

lemma badEmail_iff:
  "badEmail v = (\<not> (case v of Some (JStr s) \<Rightarrow> isValidEmail s | _ \<Rightarrow> False))"
  by (cases v rule: truthy.cases)
     (auto simp: badEmail_def isValidEmail_def emailRegex_def)

lemma products_message:
  "lit ''product must be one of: '' @ join (lit '', '') VALID_PRODUCTS =
   lit ''product must be one of: ARCHITECT, LANDMARK, SPOTLIGHT, FUNDAMENTALS''"
  by (simp add: VALID_PRODUCTS_def lit_def)

lemma includes_formTypes:
  "arrayIncludes [lit ''contact'', lit ''support'', lit ''quote''] (getProp d (lit ''formType''))
     = formTypeKnown d"
  by (cases "getProp d (lit ''formType'')" rule: truthy.cases)
     (auto simp: formTypeKnown_def isFormType_def)

lemma not_object_iff:
  "(\<not> truthy (Some d) \<or> typeof (Some d) \<noteq> TObject) = (\<not> isObjectValue d)"
  by (cases d) (simp_all add: isObjectValue_def)

lemma contactSupportChecks_rules:
  "contactSupportChecks d =
     (if \<not> phoneGiven d then Some (lit ''phone is required for contact and support forms'')
      else if \<not> messageGiven d then Some (lit ''message is required for contact and support forms'')
      else None)"
  by (simp add: contactSupportChecks_def phoneGiven_def messageGiven_def blankString_nonBlank)

lemma includes_products:
  "arrayIncludes VALID_PRODUCTS v =
     (case v of Some (JStr s) \<Rightarrow> s \<in> {lit ''ARCHITECT'', lit ''LANDMARK'', lit ''SPOTLIGHT'', lit ''FUNDAMENTALS''}
      | _ \<Rightarrow> False)"
  by (cases v rule: truthy.cases) (simp_all add: VALID_PRODUCTS_def)

lemma quoteChecks_rules:
  "quoteChecks d =
     (if \<not> productGiven d then Some (lit ''product is required for quote form'')
      else if \<not> productKnown d
      then Some (lit ''product must be one of: ARCHITECT, LANDMARK, SPOTLIGHT, FUNDAMENTALS'')
      else None)"
  unfolding quoteChecks_def productGiven_def productKnown_def blankString_nonBlank
    products_message includes_products
  by simp

lemma validateFormData_firstFailure: "validateFormData d = firstFailure validationRules d"
  unfolding validateFormData_def not_object_iff includes_formTypes blankString_nonBlank
    badEmail_iff contactSupportChecks_rules quoteChecks_rules validationRules_def
  by (simp add: formTypePresent_def nameGiven_def emailGiven_def)

lemma firstFailure_at:
  "i < length rules \<Longrightarrow> \<not> fst (rules ! i) d \<Longrightarrow> (\<forall>j<i. fst (rules ! j) d)
     \<Longrightarrow> firstFailure rules d = invalid (snd (rules ! i))"
proof (induction rules arbitrary: i)
  case Nil
  then show ?case by simp
next
  case (Cons r rules)
  obtain holds err where r: "r = (holds, err)" by (cases r)
  show ?case
  proof (cases i)
    case 0
    with Cons.prems r show ?thesis by simp
  next
    case (Suc k)
    with Cons.prems have "holds d" using r by fastforce
    moreover from Suc Cons.prems have "firstFailure rules d = invalid (snd (rules ! k))"
      by (intro Cons.IH) auto
    ultimately show ?thesis using r Suc by simp
  qed
qed

lemma firstFailure_none:
  "(\<forall>r\<in>set rules. fst r d) \<Longrightarrow> firstFailure rules d = ok"
  by (induction rules) auto

lemma valid_firstFailure: "valid (firstFailure rules d) = list_all (\<lambda>r. fst r d) rules"
  by (induction rules) (auto simp: ok_def invalid_def split: if_splits)

lemma firstFailure_invalid:
  "\<not> valid (firstFailure rules d) \<Longrightarrow>
     \<exists>i<length rules. (\<forall>j<i. fst (rules ! j) d) \<and> \<not> fst (rules ! i) d
        \<and> firstFailure rules d = invalid (snd (rules ! i))"
proof (induction rules)
  case Nil
  then show ?case by (simp add: ok_def)
next
  case (Cons r rules)
  obtain holds err where r: "r = (holds, err)" by (cases r)
  show ?case
  proof (cases "holds d")
    case False
    with r have "(\<forall>j<0. fst ((r # rules) ! j) d) \<and> \<not> fst ((r # rules) ! 0) d
        \<and> firstFailure (r # rules) d = invalid (snd ((r # rules) ! 0))"
      by simp
    then show ?thesis by blast
  next
    case True
    with Cons.prems r have "\<not> valid (firstFailure rules d)" by simp
    with Cons.IH obtain i where i: "i < length rules" "\<forall>j<i. fst (rules ! j) d"
      "\<not> fst (rules ! i) d" "firstFailure rules d = invalid (snd (rules ! i))"
      by blast
    have "\<forall>j<Suc i. fst ((r # rules) ! j) d"
    proof (intro allI impI)
      fix j assume "j < Suc i"
      then show "fst ((r # rules) ! j) d"
        using i(2) True r by (cases j) auto
    qed
    with i True r have "Suc i < length (r # rules) \<and> (\<forall>j<Suc i. fst ((r # rules) ! j) d)
        \<and> \<not> fst ((r # rules) ! Suc i) d
        \<and> firstFailure (r # rules) d = invalid (snd ((r # rules) ! Suc i))"
      by simp
    then show ?thesis by blast
  qed
qed

lemma rule_messages_nonempty: "r \<in> set validationRules \<Longrightarrow> snd r \<noteq> []"
  by (auto simp: validationRules_def lit_def)

lemma errorOrDefault_Some: "m \<noteq> [] \<Longrightarrow> errorOrDefault (Some m) = m"
  by (simp add: errorOrDefault_def)

lemma tryBlock_invalid:
  "json_body request = Inr body \<Longrightarrow> \<not> valid (validateFormData body) \<Longrightarrow>
     tryBlock sendMail cors request =
       ([], Inr \<lparr>status_code = 400, status = lit ''error'',
                 message = errorOrDefault (error (validateFormData body)), headers = cors\<rparr>)"
  by (simp add: tryBlock_def)

lemma POST_invalid:
  assumes "json_body request = Inr body" and "\<not> valid (validateFormData body)"
  shows "\<exists>i<length validationRules.
           (\<forall>j<i. fst (validationRules ! j) body) \<and> \<not> fst (validationRules ! i) body
           \<and> POST nodeEnv sendMail request =
               (\<lparr>status_code = 400, status = lit ''error'',
                 message = snd (validationRules ! i),
                 headers = getCorsHeaders nodeEnv (origin request)\<rparr>, [])"
proof -
  from assms(2) obtain i where i: "i < length validationRules"
      "\<forall>j<i. fst (validationRules ! j) body" "\<not> fst (validationRules ! i) body"
      "validateFormData body = invalid (snd (validationRules ! i))"
    using firstFailure_invalid [of validationRules body]
    by (auto simp: validateFormData_firstFailure)
  from i(1) have "snd (validationRules ! i) \<noteq> []"
    by (simp add: rule_messages_nonempty)
  then have "errorOrDefault (error (validateFormData body)) = snd (validationRules ! i)"
    by (simp add: i(4) invalid_def errorOrDefault_Some)
  with assms have "POST nodeEnv sendMail request =
               (\<lparr>status_code = 400, status = lit ''error'',
                 message = snd (validationRules ! i),
                 headers = getCorsHeaders nodeEnv (origin request)\<rparr>, [])"
    by (simp add: POST_def tryBlock_invalid)
  with i show ?thesis by blast
qed

subsection \<open>Accepted payloads and their formatting\<close>

lemma valid_rules:
  "valid (validateFormData d) =
     (isObjectValue d \<and> formTypePresent d \<and> formTypeKnown d \<and> nameGiven d \<and> emailGiven d
      \<and> phoneGiven d \<and> messageGiven d \<and> productGiven d \<and> productKnown d)"
  unfolding validateFormData_firstFailure valid_firstFailure validationRules_def
  by simp

lemma nonBlankE:
  assumes "nonBlank v"
  obtains s where "v = Some (JStr s)" and "trim s \<noteq> []"
  using assms by (auto simp: nonBlank_def split: option.splits json.splits)

lemma emailGivenE:
  assumes "emailGiven d"
  obtains e where "getProp d (lit ''email'') = Some (JStr e)" and "isValidEmail e"
  using assms by (auto simp: emailGiven_def split: option.splits json.splits)

lemma formTypes_distinct:
  "lit ''contact'' \<noteq> lit ''support''" "lit ''contact'' \<noteq> lit ''quote''"
  "lit ''support'' \<noteq> lit ''quote''"
  by (simp_all add: lit_def)

lemma isFormType_excl:
  "isFormType d ''contact'' \<Longrightarrow> \<not> isFormType d ''support'' \<and> \<not> isFormType d ''quote''"
  "isFormType d ''support'' \<Longrightarrow> \<not> isFormType d ''contact'' \<and> \<not> isFormType d ''quote''"
  "isFormType d ''quote'' \<Longrightarrow> \<not> isFormType d ''contact'' \<and> \<not> isFormType d ''support''"
  using formTypes_distinct by (auto simp: isFormType_def)

lemma isFormType_not_null: "isFormType d t \<Longrightarrow> d \<noteq> JNull"
  by (auto simp: isFormType_def)

lemma interp_JStr [simp]: "interp (Some (JStr s)) = Inr s"
  by (simp add: interp_def)

lemma messageReplace_JStr [simp]: "messageReplace (Some (JStr s)) = Inr (replaceNewlines s)"
  by (simp add: messageReplace_def)

lemma bindE_Inr [simp]: "bindE (Inr x) f = f x"
  by (simp add: bindE_def)

lemma bindE_Inl [simp]: "bindE (Inl e) f = Inl e"
  by (simp add: bindE_def)

lemma formatEmailContent_contact:
  assumes "isFormType d ''contact''"
    and "getProp d (lit ''name'') = Some (JStr n)"
    and "getProp d (lit ''email'') = Some (JStr e)"
    and "getProp d (lit ''phone'') = Some (JStr p)"
    and "getProp d (lit ''message'') = Some (JStr m)"
  shows "formatEmailContent d =
     Inr \<lparr>subject = lit ''New Contact Form Submission - '' @ n,
          html = lit ''\<newline>      <h2>New Contact Form Submission</h2>\<newline>      <p><strong>Name:</strong> ''
            @ n @ lit ''</p>\<newline>      <p><strong>Email:</strong> ''
            @ e @ lit ''</p>\<newline>      <p><strong>Phone:</strong> ''
            @ p @ lit ''</p>\<newline>      <p><strong>Message:</strong></p>\<newline>      <p>''
            @ replaceNewlines m @ lit ''</p>\<newline>    '',
          text_body = lit ''\<newline>New Contact Form Submission\<newline>\<newline>Name: ''
            @ n @ lit ''\<newline>Email: ''
            @ e @ lit ''\<newline>Phone: ''
            @ p @ lit ''\<newline>Message: ''
            @ m @ lit ''\<newline>    ''\<rparr>"
  using assms isFormType_not_null [OF assms(1)]
  by (simp add: formatEmailContent_def)

lemma formatEmailContent_support:
  assumes "isFormType d ''support''"
    and "getProp d (lit ''name'') = Some (JStr n)"
    and "getProp d (lit ''email'') = Some (JStr e)"
    and "getProp d (lit ''phone'') = Some (JStr p)"
    and "getProp d (lit ''message'') = Some (JStr m)"
  shows "formatEmailContent d =
     Inr \<lparr>subject = lit ''New Support Request - '' @ n,
          html = lit ''\<newline>      <h2>New Support Request</h2>\<newline>      <p><strong>Name:</strong> ''
            @ n @ lit ''</p>\<newline>      <p><strong>Email:</strong> ''
            @ e @ lit ''</p>\<newline>      <p><strong>Phone:</strong> ''
            @ p @ lit ''</p>\<newline>      <p><strong>Message:</strong></p>\<newline>      <p>''
            @ replaceNewlines m @ lit ''</p>\<newline>    '',
          text_body = lit ''\<newline>New Support Request\<newline>\<newline>Name: ''
            @ n @ lit ''\<newline>Email: ''
            @ e @ lit ''\<newline>Phone: ''
            @ p @ lit ''\<newline>Message: ''
            @ m @ lit ''\<newline>    ''\<rparr>"
  using assms isFormType_not_null [OF assms(1)] isFormType_excl(2) [OF assms(1)]
  by (simp add: formatEmailContent_def)

lemma formatEmailContent_quote:
  assumes "isFormType d ''quote''"
    and "getProp d (lit ''name'') = Some (JStr n)"
    and "getProp d (lit ''email'') = Some (JStr e)"
    and "getProp d (lit ''product'') = Some (JStr p)"
  shows "formatEmailContent d =
     bindE (if truthy (getProp d (lit ''mobile'')) then interp (getProp d (lit ''mobile''))
            else Inr []) (\<lambda>mobile.
       Inr \<lparr>subject = lit ''New Quote Request - '' @ n @ lit '' - '' @ p,
            html = lit ''\<newline>      <h2>New Quote Request</h2>\<newline>      <p><strong>Name:</strong> ''
              @ n @ lit ''</p>\<newline>      <p><strong>Email:</strong> ''
              @ e @ lit ''</p>\<newline>      ''
              @ (if truthy (getProp d (lit ''mobile''))
                 then lit ''<p><strong>Mobile:</strong> '' @ mobile @ lit ''</p>'' else [])
              @ lit ''\<newline>      <p><strong>Product:</strong> ''
              @ p @ lit ''</p>\<newline>    '',
            text_body = lit ''\<newline>New Quote Request\<newline>\<newline>Name: ''
              @ n @ lit ''\<newline>Email: ''
              @ e @ lit ''\<newline>''
              @ (if truthy (getProp d (lit ''mobile''))
                 then lit ''Mobile: '' @ mobile @ lit ''\<newline>'' else [])
              @ lit ''Product: ''
              @ p @ lit ''\<newline>    ''\<rparr>)"
  using assms isFormType_not_null [OF assms(1)] isFormType_excl(3) [OF assms(1)]
  by (simp add: formatEmailContent_def)

text \<open>What validation guarantees of a payload it accepts, by form type.\<close>

lemma valid_cases:
  assumes "valid (validateFormData d)"
  obtains (contact) n e p m where "isFormType d ''contact''"
      "getProp d (lit ''name'') = Some (JStr n)" "getProp d (lit ''email'') = Some (JStr e)"
      "getProp d (lit ''phone'') = Some (JStr p)" "getProp d (lit ''message'') = Some (JStr m)"
      "isValidEmail e"
    | (support) n e p m where "isFormType d ''support''"
      "getProp d (lit ''name'') = Some (JStr n)" "getProp d (lit ''email'') = Some (JStr e)"
      "getProp d (lit ''phone'') = Some (JStr p)" "getProp d (lit ''message'') = Some (JStr m)"
      "isValidEmail e"
    | (quote) n e p where "isFormType d ''quote''"
      "getProp d (lit ''name'') = Some (JStr n)" "getProp d (lit ''email'') = Some (JStr e)"
      "getProp d (lit ''product'') = Some (JStr p)" "p \<in> set VALID_PRODUCTS"
      "isValidEmail e"
proof -
  from assms have r: "formTypeKnown d" "nameGiven d" "emailGiven d" "phoneGiven d"
      "messageGiven d" "productGiven d" "productKnown d"
    by (simp_all add: valid_rules)
  from r(2) obtain n where n: "getProp d (lit ''name'') = Some (JStr n)"
    unfolding nameGiven_def by (rule nonBlankE)
  from r(3) obtain e where e: "getProp d (lit ''email'') = Some (JStr e)" "isValidEmail e"
    by (rule emailGivenE)
  from r(1) consider "isFormType d ''contact''" | "isFormType d ''support''" | "isFormType d ''quote''"
    unfolding formTypeKnown_def by blast
  then show thesis
  proof cases
    case 1
    with r(4,5) have "nonBlank (getProp d (lit ''phone''))" "nonBlank (getProp d (lit ''message''))"
      by (simp_all add: phoneGiven_def messageGiven_def)
    then obtain p m where "getProp d (lit ''phone'') = Some (JStr p)"
        "getProp d (lit ''message'') = Some (JStr m)"
      by (auto elim!: nonBlankE)
    with 1 n e show thesis by (intro contact)
  next
    case 2
    with r(4,5) have "nonBlank (getProp d (lit ''phone''))" "nonBlank (getProp d (lit ''message''))"
      by (simp_all add: phoneGiven_def messageGiven_def)
    then obtain p m where "getProp d (lit ''phone'') = Some (JStr p)"
        "getProp d (lit ''message'') = Some (JStr m)"
      by (auto elim!: nonBlankE)
    with 2 n e show thesis by (intro support)
  next
    case 3
    with r(7) obtain p where "getProp d (lit ''product'') = Some (JStr p)" "p \<in> set VALID_PRODUCTS"
      by (auto simp: productKnown_def VALID_PRODUCTS_def split: option.splits json.splits)
    with 3 n e show thesis by (intro quote)
  qed
qed

subsection \<open>The runs of the handler\<close>

lemma POST_parse_error:
  "json_body request = Inl e \<Longrightarrow>
     POST nodeEnv sendMail request =
       (failureResponse (errorMessage e) (getCorsHeaders nodeEnv (origin request)), [ConsoleError e])"
  by (simp add: POST_def tryBlock_def failureResponse_def)

lemma POST_format_error:
  "json_body request = Inr body \<Longrightarrow> valid (validateFormData body) \<Longrightarrow>
   formatEmailContent body = Inl e \<Longrightarrow>
     POST nodeEnv sendMail request =
       (failureResponse (errorMessage e) (getCorsHeaders nodeEnv (origin request)), [ConsoleError e])"
  by (simp add: POST_def tryBlock_def failureResponse_def)

lemma POST_relay_ok:
  "json_body request = Inr body \<Longrightarrow> valid (validateFormData body) \<Longrightarrow>
   formatEmailContent body = Inr content \<Longrightarrow> sendMail (composedMail content body) = None \<Longrightarrow>
     POST nodeEnv sendMail request =
       (successResponse (getCorsHeaders nodeEnv (origin request)),
        [SendMail (composedMail content body)])"
  by (simp add: POST_def tryBlock_def successResponse_def composedMail_def)

lemma POST_relay_fails:
  "json_body request = Inr body \<Longrightarrow> valid (validateFormData body) \<Longrightarrow>
   formatEmailContent body = Inr content \<Longrightarrow> sendMail (composedMail content body) = Some e \<Longrightarrow>
     POST nodeEnv sendMail request =
       (failureResponse (errorMessage e) (getCorsHeaders nodeEnv (origin request)),
        [SendMail (composedMail content body), ConsoleError e])"
  by (simp add: POST_def tryBlock_def failureResponse_def composedMail_def)

lemma POST_invalid_plain:
  "json_body request = Inr body \<Longrightarrow> \<not> valid (validateFormData body) \<Longrightarrow>
     snd (POST nodeEnv sendMail request) = [] \<and> status_code (fst (POST nodeEnv sendMail request)) = 400"
  by (simp add: POST_def tryBlock_def)

text \<open>
  Every run of the handler is one of five: the body does not parse, it is rejected by
  validation, formatting raises, the relay resolves, or the relay rejects.
\<close>

lemma POST_cases:
  obtains (parse) e where "json_body request = Inl e"
      "POST nodeEnv sendMail request =
        (failureResponse (errorMessage e) (getCorsHeaders nodeEnv (origin request)), [ConsoleError e])"
  | (invalid) body where "json_body request = Inr body" "\<not> valid (validateFormData body)"
      "snd (POST nodeEnv sendMail request) = []"
      "status_code (fst (POST nodeEnv sendMail request)) = 400"
  | (format) body e where "json_body request = Inr body" "valid (validateFormData body)"
      "formatEmailContent body = Inl e"
      "POST nodeEnv sendMail request =
        (failureResponse (errorMessage e) (getCorsHeaders nodeEnv (origin request)), [ConsoleError e])"
  | (sent) body content where "json_body request = Inr body" "valid (validateFormData body)"
      "formatEmailContent body = Inr content" "sendMail (composedMail content body) = None"
      "POST nodeEnv sendMail request =
        (successResponse (getCorsHeaders nodeEnv (origin request)),
         [SendMail (composedMail content body)])"
  | (rejected) body content e where "json_body request = Inr body" "valid (validateFormData body)"
      "formatEmailContent body = Inr content" "sendMail (composedMail content body) = Some e"
      "POST nodeEnv sendMail request =
        (failureResponse (errorMessage e) (getCorsHeaders nodeEnv (origin request)),
         [SendMail (composedMail content body), ConsoleError e])"
proof (cases "json_body request")
  case (Inl e)
  then show thesis using POST_parse_error parse by blast
next
  case (Inr body)
  show thesis
  proof (cases "valid (validateFormData body)")
    case False
    with Inr show thesis using POST_invalid_plain invalid by blast
  next
    case True
    show thesis
    proof (cases "formatEmailContent body")
      case (Inl e)
      with Inr True show thesis using POST_format_error format by blast
    next
      case fmt: (Inr content)
      show thesis
      proof (cases "sendMail (composedMail content body)")
        case None
        with Inr True fmt show thesis using POST_relay_ok sent by blast
      next
        case (Some e)
        with Inr True fmt show thesis using POST_relay_fails rejected by blast
      qed
    qed
  qed
qed

lemma toStr_error: "toStr v = Inl e \<Longrightarrow> e = notPrimitive"
  and elemStrings_error: "elemStrings vs = Inl e \<Longrightarrow> e = notPrimitive"
  by (induction v and vs rule: toStr_elemStrings.induct)
     (auto split: sum.splits if_splits)

lemma valid_formats:
  assumes "valid (validateFormData body)" and "mobileFormats body"
  shows "\<exists>content. formatEmailContent body = Inr content"
  using assms(1)
proof (cases rule: valid_cases)
  case (contact n e p m)
  then show ?thesis by (simp add: formatEmailContent_contact)
next
  case (support n e p m)
  then show ?thesis by (simp add: formatEmailContent_support)
next
  case (quote n e p)
  show ?thesis
  proof (cases "truthy (getProp body (lit ''mobile''))")
    case False
    with quote show ?thesis by (simp add: formatEmailContent_quote)
  next
    case True
    with assms(2) quote(1) obtain s where "interp (getProp body (lit ''mobile'')) = Inr s"
      by (auto simp: mobileFormats_def split: sum.splits)
    with True quote show ?thesis by (simp add: formatEmailContent_quote)
  qed
qed

subsection \<open>Lines\<close>

lemma splitLines_not_Nil [simp]: "splitLines s \<noteq> []"
  by (induction s) (auto split: list.splits)

lemma splitLines_plain_append:
  "list_all (\<lambda>c. \<not> isLineTerminator c) a \<Longrightarrow>
     splitLines (a @ b) = (a @ hd (splitLines b)) # tl (splitLines b)"
proof (induction a)
  case Nil
  then show ?case by simp
next
  case (Cons c a)
  then show ?case by (simp split: list.splits)
qed

lemma splitLines_plain:
  "list_all (\<lambda>c. \<not> isLineTerminator c) a \<Longrightarrow> splitLines a = [a]"
  using splitLines_plain_append [of a "[]"] by simp

lemma splitLines_break:
  "isLineTerminator c \<Longrightarrow> splitLines (a @ c # b) = splitLines a @ splitLines b"
proof (induction a)
  case Nil
  then show ?case by simp
next
  case (Cons x a)
  then show ?case
    by (cases "splitLines a") (auto split: list.splits)
qed

lemma splitLines_line:
  "list_all (\<lambda>c. \<not> isLineTerminator c) a \<Longrightarrow> isLineTerminator c \<Longrightarrow>
     splitLines (a @ c # b) = a # splitLines b"
  by (simp add: splitLines_break splitLines_plain)

lemma whitespace_terminator: "isLineTerminator c \<Longrightarrow> isWhiteSpace c"
  by (auto simp: isLineTerminator_def isWhiteSpace_def)

lemmas validate_eval =
  validateFormData_def blankString_def badEmail_def isFormType_def contactSupportChecks_def
  quoteChecks_def VALID_PRODUCTS_def trim_def isWhiteSpace_def isValidEmail_def emailRegex_def
  lit_def invalid_def ok_def

lemma email_chars:
  assumes "isValidEmail e" shows "list_all (\<lambda>c. \<not> isLineTerminator c) e"
proof -
  from assms obtain a b c where e: "e = a @ [0x40] @ b @ [0x2E] @ c"
      and p: "list_all plainChar a" "list_all plainChar b" "list_all plainChar c"
    unfolding isValidEmail_spec specEmailPattern_def by blast
  have "list_all plainChar xs \<Longrightarrow> list_all (\<lambda>c. \<not> isLineTerminator c) xs" for xs
    by (induction xs) (auto simp: plainChar_def dest: whitespace_terminator)
  with p show ?thesis
    by (simp add: e isLineTerminator_def)
qed

lemma product_chars: "p \<in> set VALID_PRODUCTS \<Longrightarrow> list_all (\<lambda>c. \<not> isLineTerminator c) p"
  by (auto simp: VALID_PRODUCTS_def lit_def isLineTerminator_def)

lemma quote_text_lines:
  assumes "list_all (\<lambda>c. \<not> isLineTerminator c) e" "list_all (\<lambda>c. \<not> isLineTerminator c) p"
  shows "splitLines (lit ''\<newline>New Quote Request\<newline>\<newline>Name: '' @ n @ lit ''\<newline>Email: ''
            @ e @ lit ''\<newline>'' @ [] @ lit ''Product: '' @ p @ lit ''\<newline>    '')
         = [[], lit ''New Quote Request'', [], lit ''Name: '' @ hd (splitLines n)]
           @ tl (splitLines n)
           @ [lit ''Email: '' @ e, lit ''Product: '' @ p, lit ''    '']"
proof -
  have lf: "isLineTerminator 0x0A" by (simp add: isLineTerminator_def)
  have shape: "lit ''\<newline>New Quote Request\<newline>\<newline>Name: '' @ n @ lit ''\<newline>Email: ''
            @ e @ lit ''\<newline>'' @ [] @ lit ''Product: '' @ p @ lit ''\<newline>    ''
      = [] @ 0x0A # (lit ''New Quote Request'' @ 0x0A # ([] @ 0x0A # ((lit ''Name: '' @ n) @ 0x0A #
          ((lit ''Email: '' @ e) @ 0x0A # ((lit ''Product: '' @ p) @ 0x0A # lit ''    '')))))"
    by (simp add: lit_def)
  have plain: "list_all (\<lambda>c. \<not> isLineTerminator c) []"
    "list_all (\<lambda>c. \<not> isLineTerminator c) (lit ''New Quote Request'')"
    "list_all (\<lambda>c. \<not> isLineTerminator c) (lit ''Name: '')"
    "list_all (\<lambda>c. \<not> isLineTerminator c) (lit ''Email: '' @ e)"
    "list_all (\<lambda>c. \<not> isLineTerminator c) (lit ''Product: '' @ p)"
    "list_all (\<lambda>c. \<not> isLineTerminator c) (lit ''    '')"
    using assms by (simp_all add: lit_def isLineTerminator_def)
  have tail: "splitLines ((lit ''Email: '' @ e) @ 0x0A # ((lit ''Product: '' @ p) @ 0x0A # lit ''    ''))
      = [lit ''Email: '' @ e, lit ''Product: '' @ p, lit ''    '']"
    by (simp only: splitLines_line [OF _ lf] plain splitLines_plain)
  have name: "splitLines (lit ''Name: '' @ n) = (lit ''Name: '' @ hd (splitLines n)) # tl (splitLines n)"
    using plain(3) by (rule splitLines_plain_append)
  have middle: "splitLines ((lit ''Name: '' @ n) @ 0x0A #
          ((lit ''Email: '' @ e) @ 0x0A # ((lit ''Product: '' @ p) @ 0x0A # lit ''    '')))
      = ((lit ''Name: '' @ hd (splitLines n)) # tl (splitLines n))
        @ [lit ''Email: '' @ e, lit ''Product: '' @ p, lit ''    '']"
    by (subst splitLines_break [OF lf]) (simp only: name tail)
  have "splitLines ([] @ 0x0A # (lit ''New Quote Request'' @ 0x0A # ([] @ 0x0A # ((lit ''Name: '' @ n) @ 0x0A #
          ((lit ''Email: '' @ e) @ 0x0A # ((lit ''Product: '' @ p) @ 0x0A # lit ''    ''))))))
      = [] # lit ''New Quote Request'' # [] # (((lit ''Name: '' @ hd (splitLines n)) # tl (splitLines n))
        @ [lit ''Email: '' @ e, lit ''Product: '' @ p, lit ''    ''])"
    by (simp only: splitLines_line [OF plain(1) lf] splitLines_line [OF plain(2) lf] middle)
  then show ?thesis
    unfolding shape by simp
qed

lemma mobile_line_from_name:
  assumes "list_all (\<lambda>c. \<not> isLineTerminator c) e" "list_all (\<lambda>c. \<not> isLineTerminator c) p"
  shows "hasLineStarting (lit ''Mobile:'') (lit ''\<newline>New Quote Request\<newline>\<newline>Name: '' @ n @ lit ''\<newline>Email: ''
            @ e @ lit ''\<newline>'' @ [] @ lit ''Product: '' @ p @ lit ''\<newline>    '')
         = hasLaterLineStarting (lit ''Mobile:'') n"
  unfolding hasLineStarting_def hasLaterLineStarting_def quote_text_lines [OF assms]
  by (simp add: lit_def)

lemma no_later_line:
  "list_all (\<lambda>c. \<not> isLineTerminator c) n \<Longrightarrow> \<not> hasLaterLineStarting p n"
  by (simp add: hasLaterLineStarting_def splitLines_plain)

lemma hasLineStarting_after_break:
  "isLineTerminator c \<Longrightarrow> hasLineStarting p b \<Longrightarrow> hasLineStarting p (a @ c # b)"
  by (simp add: hasLineStarting_def splitLines_break)

lemma hasLineStarting_here:
  "list_all (\<lambda>c. \<not> isLineTerminator c) p \<Longrightarrow> hasLineStarting p (p @ w)"
  by (simp add: hasLineStarting_def splitLines_plain_append)

lemma mobile_line_in_text:
  "hasLineStarting (lit ''Mobile:'') (lit ''\<newline>New Quote Request\<newline>\<newline>Name: '' @ n @ lit ''\<newline>Email: ''
            @ e @ lit ''\<newline>'' @ (lit ''Mobile: '' @ m @ lit ''\<newline>'') @ lit ''Product: '' @ p @ lit ''\<newline>    '')"
proof -
  have shape: "lit ''\<newline>New Quote Request\<newline>\<newline>Name: '' @ n @ lit ''\<newline>Email: ''
            @ e @ lit ''\<newline>'' @ (lit ''Mobile: '' @ m @ lit ''\<newline>'') @ lit ''Product: '' @ p @ lit ''\<newline>    ''
     = (lit ''\<newline>New Quote Request\<newline>\<newline>Name: '' @ n @ lit ''\<newline>Email: '' @ e) @ 0x0A #
         (lit ''Mobile:'' @ (lit '' '' @ m @ lit ''\<newline>'' @ lit ''Product: '' @ p @ lit ''\<newline>    ''))"
    by (simp add: lit_def)
  have "list_all (\<lambda>c. \<not> isLineTerminator c) (lit ''Mobile:'')"
    by (simp add: lit_def isLineTerminator_def)
  then show ?thesis
    unfolding shape
    by (intro hasLineStarting_after_break hasLineStarting_here) (simp add: isLineTerminator_def)
qed

subsection \<open>The claims\<close>

lemmas rules_eval =
  validationRules_def isObjectValue_def formTypePresent_def formTypeKnown_def nameGiven_def
  emailGiven_def phoneGiven_def messageGiven_def productGiven_def productKnown_def nonBlank_def
  isFormType_def trim_def isWhiteSpace_def isValidEmail_def emailRegex_def lit_def

text \<open>
  C1. For every payload, \<open>validateFormData\<close> applies the rules of \<open>validationRules\<close> in
  their fixed order (object, form type present, form type known, name, email, then the checks
  of the form type) and answers with the error of the first rule that fails, whatever the later
  rules would say; it accepts exactly when every rule holds.
\<close>

theorem validateFormData_first_failure:
  "validateFormData data = firstFailure validationRules data
   \<and> (\<forall>i<length validationRules.
         (\<forall>j<i. fst (validationRules ! j) data) \<and> \<not> fst (validationRules ! i) data \<longrightarrow>
           validateFormData data = \<lparr>valid = False, error = Some (snd (validationRules ! i))\<rparr>)
   \<and> ((\<forall>r\<in>set validationRules. fst r data) \<longrightarrow>
         validateFormData data = \<lparr>valid = True, error = None\<rparr>)"
proof (intro conjI allI impI)
  show "validateFormData data = firstFailure validationRules data"
    by (rule validateFormData_firstFailure)
next
  fix i
  assume "i < length validationRules"
    and "(\<forall>j<i. fst (validationRules ! j) data) \<and> \<not> fst (validationRules ! i) data"
  then have "firstFailure validationRules data = invalid (snd (validationRules ! i))"
    by (intro firstFailure_at) auto
  then show "validateFormData data = \<lparr>valid = False, error = Some (snd (validationRules ! i))\<rparr>"
    by (simp add: validateFormData_firstFailure invalid_def)
next
  assume "\<forall>r\<in>set validationRules. fst r data"
  then have "firstFailure validationRules data = ok"
    by (rule firstFailure_none)
  then show "validateFormData data = \<lparr>valid = True, error = None\<rparr>"
    by (simp add: validateFormData_firstFailure ok_def)
qed

text \<open>
  A quote with a blank name and no email: the name rule is the first to fail, and its error is
  returned although the email rule fails as well.
\<close>

theorem validateFormData_first_failure_witness:
  "validateFormData blankNameQuote = \<lparr>valid = False, error = Some (lit ''name is required'')\<rparr>
   \<and> \<not> emailGiven blankNameQuote"
proof -
  have len: "(3::nat) < length validationRules"
    by (simp add: validationRules_def)
  have before: "\<forall>j<3. fst (validationRules ! j) blankNameQuote"
    by (simp add: numeral_3_eq_3 less_Suc_eq blankNameQuote_def rules_eval)
  have here: "\<not> fst (validationRules ! 3) blankNameQuote"
    by (simp add: blankNameQuote_def rules_eval)
  have later: "\<not> emailGiven blankNameQuote"
    by (simp add: blankNameQuote_def rules_eval)
  from validateFormData_first_failure [of blankNameQuote] len before here
  have "validateFormData blankNameQuote
      = \<lparr>valid = False, error = Some (snd (validationRules ! 3))\<rparr>"
    by blast
  then show ?thesis using later by (simp add: validationRules_def)
qed

text \<open>
  C9. A payload that is an array passes the object test (the answer is never
  \<open>Invalid request data\<close>) and is rejected by the next rule, with \<open>formType is required\<close>.
\<close>

theorem validateFormData_array:
  "validateFormData (JArr xs) = \<lparr>valid = False, error = Some (lit ''formType is required'')\<rparr>
   \<and> error (validateFormData (JArr xs)) \<noteq> Some (lit ''Invalid request data'')"
  by (simp add: validateFormData_def invalid_def lit_def)

text \<open>An array of two elements, one of them a form type.\<close>

theorem validateFormData_array_witness:
  "validateFormData (JArr [JStr (lit ''contact''), JNull])
     = \<lparr>valid = False, error = Some (lit ''formType is required'')\<rparr>"
  using validateFormData_array [of "[JStr (lit ''contact''), JNull]"] by simp

text \<open>
  C4. \<open>isValidEmail\<close> accepts a string exactly when it is one or more code units other than
  white space and \<open>@\<close>, then \<open>@\<close>, then one or more such code units, then a dot, then one
  or more such code units; \<open>a@b.com\<close> is accepted, \<open>a@b\<close> and \<open>a b@c.com\<close> are rejected.
\<close>

theorem isValidEmail_pattern:
  "isValidEmail s = specEmailPattern s
   \<and> isValidEmail (lit ''a@b.com'') \<and> \<not> isValidEmail (lit ''a@b'')
   \<and> \<not> isValidEmail (lit ''a b@c.com'')"
  by (simp add: isValidEmail_spec [symmetric])
     (simp add: isValidEmail_def emailRegex_def lit_def isWhiteSpace_def)

text \<open>The described shape at the first two examples.\<close>

theorem isValidEmail_pattern_witness:
  "specEmailPattern (lit ''a@b.com'') \<and> \<not> specEmailPattern (lit ''a@b'')"
  using isValidEmail_pattern [of "lit ''a@b.com''"] isValidEmail_pattern [of "lit ''a@b''"]
  by simp

lemma janeContact_valid: "validateFormData janeContact = ok"
  by (simp add: janeContact_def validate_eval)

lemma janeContact_format: "formatEmailContent janeContact = Inr janeContent"
  by (simp add: janeContact_def janeContent_def formatEmailContent_def isFormType_def interp_def
      bindE_def messageReplace_def replaceNewlines_def lit_def)

lemma ok_valid [simp]: "valid ok" "\<not> valid (invalid e)" "error (invalid e) = Some e"
  by (simp_all add: ok_def invalid_def)

text \<open>
  C2, as the code has it. The handler tells a failure with a message from one without by
  \<open>error instanceof Error\<close>. Whenever it has called the relay and the call fails, the
  response is 500 with the failure's message when the failure is an \<open>Error\<close>, also when
  that message is empty, and with the fallback text when it is any other value, also when
  that value has a \<open>message\<close> property; the failure is logged and turned into that
  response, never raised further.
\<close>

theorem POST_relay_failure:
  assumes "SendMail mail \<in> set (snd (POST nodeEnv sendMail request))"
    and "sendMail mail = Some err"
  shows "POST nodeEnv sendMail request =
     (\<lparr>status_code = 500, status = lit ''error'',
       message = (case err of
                    ErrorInstance m \<Rightarrow> m
                  | NonError v \<Rightarrow>
                      lit ''An error occurred while sending your message. Please try again later.''),
       headers = getCorsHeaders nodeEnv (origin request)\<rparr>,
      [SendMail mail, ConsoleError err])"
proof (cases rule: POST_cases [of request nodeEnv sendMail])
  case (parse e)
  with assms show ?thesis by simp
next
  case (invalid body)
  with assms show ?thesis by simp
next
  case (format body e)
  with assms show ?thesis by simp
next
  case (sent body content)
  with assms show ?thesis by simp
next
  case (rejected body content e)
  with assms have "mail = composedMail content body" and "e = err"
    by auto
  with rejected(5) show ?thesis
    by (simp add: failureResponse_def errorMessage_def)
qed

text \<open>
  Jane's contact form with a relay that rejects every call, once with an \<open>Error\<close> and once
  with a value that is not one.
\<close>

theorem POST_relay_failure_witness:
  "message (fst (POST None (relayRejects (ErrorInstance (lit ''Connection timeout'')))
       \<lparr>origin = None, json_body = Inr janeContact\<rparr>)) = lit ''Connection timeout''
   \<and> status_code (fst (POST None (relayRejects (ErrorInstance (lit ''Connection timeout'')))
       \<lparr>origin = None, json_body = Inr janeContact\<rparr>)) = 500
   \<and> message (fst (POST None (relayRejects (NonError (JStr (lit ''timeout''))))
       \<lparr>origin = None, json_body = Inr janeContact\<rparr>))
       = lit ''An error occurred while sending your message. Please try again later.''
   \<and> status_code (fst (POST None (relayRejects (NonError (JStr (lit ''timeout''))))
       \<lparr>origin = None, json_body = Inr janeContact\<rparr>)) = 500"
proof -
  let ?req = "\<lparr>origin = None, json_body = Inr janeContact\<rparr>"
  let ?mail = "composedMail janeContent janeContact"
  have called: "SendMail ?mail \<in> set (snd (POST None (relayRejects e) ?req))" for e
    using POST_relay_fails [of ?req janeContact janeContent "relayRejects e" e None]
    by (simp add: janeContact_valid janeContact_format relayRejects_def)
  have fails: "relayRejects e ?mail = Some e" for e
    by (simp add: relayRejects_def)
  show ?thesis
    using POST_relay_failure [OF called fails, of "ErrorInstance (lit ''Connection timeout'')"]
      POST_relay_failure [OF called fails, of "NonError (JStr (lit ''timeout''))"]
    by simp
qed

text \<open>
  The claim as stated fails on Jane's contact form in two ways. When the relay rejects with
  the plain object \<open>{"message":"SMTP down"}\<close>, the failure has a message and the response
  carries the fallback text. When it rejects with an \<open>Error\<close> whose message is empty, no
  message is available and the response carries the empty string, not the fallback text.
\<close>

theorem POST_relay_failure_counterexample:
  "relayCalls (snd (POST None (relayRejects (NonError messageObject))
        \<lparr>origin = None, json_body = Inr janeContact\<rparr>))
      = [composedMail janeContent janeContact]
   \<and> failureMessage (NonError messageObject) = Some (lit ''SMTP down'')
   \<and> message (fst (POST None (relayRejects (NonError messageObject))
        \<lparr>origin = None, json_body = Inr janeContact\<rparr>))
      = lit ''An error occurred while sending your message. Please try again later.''
   \<and> message (fst (POST None (relayRejects (NonError messageObject))
        \<lparr>origin = None, json_body = Inr janeContact\<rparr>))
      \<noteq> claimedMessage (NonError messageObject)
   \<and> relayCalls (snd (POST None (relayRejects (ErrorInstance []))
        \<lparr>origin = None, json_body = Inr janeContact\<rparr>))
      = [composedMail janeContent janeContact]
   \<and> failureMessage (ErrorInstance []) = None
   \<and> message (fst (POST None (relayRejects (ErrorInstance []))
        \<lparr>origin = None, json_body = Inr janeContact\<rparr>)) = []
   \<and> message (fst (POST None (relayRejects (ErrorInstance []))
        \<lparr>origin = None, json_body = Inr janeContact\<rparr>))
      \<noteq> claimedMessage (ErrorInstance [])"
proof -
  let ?req = "\<lparr>origin = None, json_body = Inr janeContact\<rparr>"
  have run: "POST None (relayRejects e) ?req =
      (failureResponse (errorMessage e) (getCorsHeaders None (origin ?req)),
       [SendMail (composedMail janeContent janeContact), ConsoleError e])" for e
    using POST_relay_fails [of ?req janeContact janeContent "relayRejects e" e None]
    by (simp add: janeContact_valid janeContact_format relayRejects_def)
  have m1: "failureMessage (NonError messageObject) = Some (lit ''SMTP down'')"
    by (simp add: failureMessage_def messageObject_def lit_def)
  have m2: "failureMessage (ErrorInstance []) = None"
    by (simp add: failureMessage_def)
  have differ: "lit ''An error occurred while sending your message. Please try again later.''
      \<noteq> lit ''SMTP down''"
    "lit ''An error occurred while sending your message. Please try again later.'' \<noteq> []"
    by (simp_all add: lit_def)
  show ?thesis
    using differ
    by (simp add: run failureResponse_def errorMessage_def claimedMessage_def m1 m2)
qed

text \<open>
  C3. For every payload that fails validation the handler answers 400 with the reason of the
  first failed rule and performs no effect: the relay is not called. A missing form type gives
  \<open>formType is required\<close>, an unknown one the message that lists the three choices, and a
  quote whose product is a non-blank string outside the product list the message that lists it.
\<close>

theorem POST_validation_failure:
  assumes "json_body request = Inr body" and "\<not> valid (validateFormData body)"
  shows "(\<exists>i<length validationRules.
           (\<forall>j<i. fst (validationRules ! j) body) \<and> \<not> fst (validationRules ! i) body
           \<and> POST nodeEnv sendMail request =
               (\<lparr>status_code = 400, status = lit ''error'',
                 message = snd (validationRules ! i),
                 headers = getCorsHeaders nodeEnv (origin request)\<rparr>, []))
     \<and> (isObjectValue body \<and> getProp body (lit ''formType'') = None \<longrightarrow>
          message (fst (POST nodeEnv sendMail request)) = lit ''formType is required'')
     \<and> (isObjectValue body \<and> formTypePresent body \<and> \<not> formTypeKnown body \<longrightarrow>
          message (fst (POST nodeEnv sendMail request))
            = lit ''Invalid formType. Must be contact, support, or quote'')
     \<and> (isFormType body ''quote'' \<and> nameGiven body \<and> emailGiven body \<and> productGiven body
          \<and> \<not> productKnown body \<longrightarrow>
          message (fst (POST nodeEnv sendMail request))
            = lit ''product must be one of: ARCHITECT, LANDMARK, SPOTLIGHT, FUNDAMENTALS'')"
proof (intro conjI impI)
  show "\<exists>i<length validationRules.
           (\<forall>j<i. fst (validationRules ! j) body) \<and> \<not> fst (validationRules ! i) body
           \<and> POST nodeEnv sendMail request =
               (\<lparr>status_code = 400, status = lit ''error'',
                 message = snd (validationRules ! i),
                 headers = getCorsHeaders nodeEnv (origin request)\<rparr>, [])"
    using assms by (rule POST_invalid)
next
  have msg: "message (fst (POST nodeEnv sendMail request))
      = errorOrDefault (error (validateFormData body))"
    using assms by (simp add: POST_def tryBlock_invalid)
  {
    assume "isObjectValue body \<and> getProp body (lit ''formType'') = None"
    then have "validateFormData body = invalid (lit ''formType is required'')"
      unfolding validateFormData_firstFailure validationRules_def
      by (simp add: formTypePresent_def)
    then show "message (fst (POST nodeEnv sendMail request)) = lit ''formType is required''"
      by (simp add: msg errorOrDefault_def lit_def)
  next
    assume "isObjectValue body \<and> formTypePresent body \<and> \<not> formTypeKnown body"
    then have "validateFormData body
        = invalid (lit ''Invalid formType. Must be contact, support, or quote'')"
      unfolding validateFormData_firstFailure validationRules_def
      by simp
    then show "message (fst (POST nodeEnv sendMail request))
        = lit ''Invalid formType. Must be contact, support, or quote''"
      by (simp add: msg errorOrDefault_def lit_def)
  next
    assume a: "isFormType body ''quote'' \<and> nameGiven body \<and> emailGiven body \<and> productGiven body
          \<and> \<not> productKnown body"
    then have q: "isFormType body ''quote''" by simp
    then have "isObjectValue body" "formTypePresent body" "formTypeKnown body"
      by (cases body; simp add: isFormType_def isObjectValue_def formTypePresent_def
            formTypeKnown_def lit_def)+
    moreover from q have "phoneGiven body" "messageGiven body"
      using isFormType_excl(3) by (simp_all add: phoneGiven_def messageGiven_def)
    ultimately have "validateFormData body
        = invalid (lit ''product must be one of: ARCHITECT, LANDMARK, SPOTLIGHT, FUNDAMENTALS'')"
      unfolding validateFormData_firstFailure validationRules_def
      using a by simp
    then show "message (fst (POST nodeEnv sendMail request))
        = lit ''product must be one of: ARCHITECT, LANDMARK, SPOTLIGHT, FUNDAMENTALS''"
      by (simp add: msg errorOrDefault_def lit_def)
  }
qed

text \<open>The empty object: 400, \<open>formType is required\<close>, and no effect.\<close>

theorem POST_validation_failure_witness:
  "POST None relayResolves \<lparr>origin = None, json_body = Inr (JObj [])\<rparr> =
     (\<lparr>status_code = 400, status = lit ''error'', message = lit ''formType is required'',
       headers = getCorsHeaders None None\<rparr>, [])"
proof -
  let ?req = "\<lparr>origin = None, json_body = Inr (JObj [])\<rparr>"
  have body: "json_body ?req = Inr (JObj [])" by simp
  have bad: "\<not> valid (validateFormData (JObj []))"
    by (simp add: validateFormData_def)
  have obj: "isObjectValue (JObj []) \<and> getProp (JObj []) (lit ''formType'') = None"
    by (simp add: isObjectValue_def)
  from POST_validation_failure [OF body bad, of None relayResolves] obj
  have m: "message (fst (POST None relayResolves ?req)) = lit ''formType is required''"
    by blast
  from POST_validation_failure [OF body bad, of None relayResolves]
  obtain i where "POST None relayResolves ?req =
       (\<lparr>status_code = 400, status = lit ''error'', message = snd (validationRules ! i),
         headers = getCorsHeaders None (origin ?req)\<rparr>, [])"
    by blast
  with m show ?thesis by simp
qed

lemma toStringMobileQuote_valid: "validateFormData toStringMobileQuote = ok"
  by (simp add: toStringMobileQuote_def validate_eval)

lemma toStringMobileQuote_format: "formatEmailContent toStringMobileQuote = Inl notPrimitive"
  by (simp add: toStringMobileQuote_def formatEmailContent_def isFormType_def interp_def
      bindE_def lit_def)

lemma mobileFormats_primitive:
  "(case getProp body (lit ''mobile'') of
      Some (JArr xs) \<Rightarrow> False | Some (JObj kvs) \<Rightarrow> False | _ \<Rightarrow> True)
   \<Longrightarrow> mobileFormats body"
  by (auto simp: mobileFormats_def interp_def split: option.splits json.splits)

text \<open>
  C5, as the code has it. A valid submission is formatted before the relay is called, and
  formatting a quote converts a truthy \<open>mobile\<close> to a string, which validation never looked
  at. For every valid submission that can be formatted (every contact and support form, and
  every quote whose \<open>mobile\<close> is absent, falsy or convertible to a string) the relay is
  called exactly once, the response is the 200 success response when that call resolves and
  a 500 when it rejects. For every request at all, a 200 is returned only after one resolved
  relay call, with the success message, and the relay is never called twice.
\<close>

theorem POST_success_after_relay:
  "(json_body request = Inr body \<and> valid (validateFormData body) \<and> mobileFormats body \<longrightarrow>
      (\<exists>mail. relayCalls (snd (POST nodeEnv sendMail request)) = [mail]
         \<and> (sendMail mail = None \<longrightarrow>
              POST nodeEnv sendMail request =
                (\<lparr>status_code = 200, status = lit ''success'',
                  message = lit ''Thank you! Your message has been sent successfully.'',
                  headers = getCorsHeaders nodeEnv (origin request)\<rparr>, [SendMail mail]))
         \<and> (sendMail mail \<noteq> None \<longrightarrow>
              status_code (fst (POST nodeEnv sendMail request)) = 500)))
   \<and> (status_code (fst (POST nodeEnv sendMail request)) = 200 \<longrightarrow>
        (\<exists>mail. snd (POST nodeEnv sendMail request) = [SendMail mail] \<and> sendMail mail = None)
        \<and> status (fst (POST nodeEnv sendMail request)) = lit ''success''
        \<and> message (fst (POST nodeEnv sendMail request))
            = lit ''Thank you! Your message has been sent successfully.'')
   \<and> length (relayCalls (snd (POST nodeEnv sendMail request))) \<le> 1"
proof (intro conjI impI)
  assume a: "json_body request = Inr body \<and> valid (validateFormData body) \<and> mobileFormats body"
  then obtain content where c: "formatEmailContent body = Inr content"
    using valid_formats by blast
  let ?mail = "composedMail content body"
  show "\<exists>mail. relayCalls (snd (POST nodeEnv sendMail request)) = [mail]
         \<and> (sendMail mail = None \<longrightarrow>
              POST nodeEnv sendMail request =
                (\<lparr>status_code = 200, status = lit ''success'',
                  message = lit ''Thank you! Your message has been sent successfully.'',
                  headers = getCorsHeaders nodeEnv (origin request)\<rparr>, [SendMail mail]))
         \<and> (sendMail mail \<noteq> None \<longrightarrow>
              status_code (fst (POST nodeEnv sendMail request)) = 500)"
  proof (cases "sendMail ?mail")
    case None
    with a c have "POST nodeEnv sendMail request =
        (successResponse (getCorsHeaders nodeEnv (origin request)), [SendMail ?mail])"
      by (simp add: POST_relay_ok)
    with None show ?thesis by (intro exI [of _ ?mail]) (simp add: successResponse_def)
  next
    case (Some e)
    with a c have "POST nodeEnv sendMail request =
        (failureResponse (errorMessage e) (getCorsHeaders nodeEnv (origin request)),
         [SendMail ?mail, ConsoleError e])"
      by (simp add: POST_relay_fails)
    with Some show ?thesis by (intro exI [of _ ?mail]) (simp add: failureResponse_def)
  qed
next
  assume s: "status_code (fst (POST nodeEnv sendMail request)) = 200"
  then have "(\<exists>mail. snd (POST nodeEnv sendMail request) = [SendMail mail] \<and> sendMail mail = None)
        \<and> status (fst (POST nodeEnv sendMail request)) = lit ''success''
        \<and> message (fst (POST nodeEnv sendMail request))
            = lit ''Thank you! Your message has been sent successfully.''"
    by (cases rule: POST_cases [of request nodeEnv sendMail])
       (simp_all add: failureResponse_def successResponse_def)
  then show "\<exists>mail. snd (POST nodeEnv sendMail request) = [SendMail mail] \<and> sendMail mail = None"
    and "status (fst (POST nodeEnv sendMail request)) = lit ''success''"
    and "message (fst (POST nodeEnv sendMail request))
            = lit ''Thank you! Your message has been sent successfully.''"
    by simp_all
next
  show "length (relayCalls (snd (POST nodeEnv sendMail request))) \<le> 1"
    by (cases rule: POST_cases [of request nodeEnv sendMail]) simp_all
qed

text \<open>Jane's contact form with a relay that resolves: one call, then the 200.\<close>

theorem POST_success_after_relay_witness:
  "status_code (fst (POST None relayResolves \<lparr>origin = None, json_body = Inr janeContact\<rparr>)) = 200
   \<and> length (relayCalls (snd (POST None relayResolves
        \<lparr>origin = None, json_body = Inr janeContact\<rparr>))) = 1"
proof -
  let ?req = "\<lparr>origin = None, json_body = Inr janeContact\<rparr>"
  have pre: "json_body ?req = Inr janeContact \<and> valid (validateFormData janeContact)
      \<and> mobileFormats janeContact"
    by (simp add: janeContact_valid) (simp add: mobileFormats_def janeContact_def isFormType_def lit_def)
  have ok: "relayResolves mail = None" for mail
    by (simp add: relayResolves_def)
  have "\<exists>mail. relayCalls (snd (POST None relayResolves ?req)) = [mail]
      \<and> (relayResolves mail = None \<longrightarrow> POST None relayResolves ?req =
                (\<lparr>status_code = 200, status = lit ''success'',
                  message = lit ''Thank you! Your message has been sent successfully.'',
                  headers = getCorsHeaders None (origin ?req)\<rparr>, [SendMail mail]))
      \<and> (relayResolves mail \<noteq> None \<longrightarrow>
              status_code (fst (POST None relayResolves ?req)) = 500)"
    by (rule mp [OF conjunct1 [OF POST_success_after_relay [of ?req janeContact None relayResolves]] pre])
  then obtain mail where "relayCalls (snd (POST None relayResolves ?req)) = [mail]"
      "relayResolves mail = None \<longrightarrow> POST None relayResolves ?req =
                (\<lparr>status_code = 200, status = lit ''success'',
                  message = lit ''Thank you! Your message has been sent successfully.'',
                  headers = getCorsHeaders None (origin ?req)\<rparr>, [SendMail mail])"
    by (elim exE conjE)
  with ok show ?thesis by simp
qed

text \<open>
  The claim as stated fails on a quote that passes validation and whose \<open>mobile\<close> is an
  object with an own \<open>toString\<close> property: formatting raises, the relay is never called and
  the response is a 500.
\<close>

theorem POST_unformattable_mobile_counterexample:
  "valid (validateFormData toStringMobileQuote)
   \<and> relayCalls (snd (POST None relayResolves
        \<lparr>origin = None, json_body = Inr toStringMobileQuote\<rparr>)) = []
   \<and> status_code (fst (POST None relayResolves
        \<lparr>origin = None, json_body = Inr toStringMobileQuote\<rparr>)) = 500"
  using POST_format_error [of "\<lparr>origin = None, json_body = Inr toStringMobileQuote\<rparr>"
      toStringMobileQuote notPrimitive None relayResolves]
  by (simp add: toStringMobileQuote_valid toStringMobileQuote_format failureResponse_def)

text \<open>
  C8. The allowed origin is the request's origin when that is one of the three listed
  origins, \<open>https://caduae.com\<close> when it is not and \<open>NODE_ENV\<close> is \<open>production\<close>, and
  \<open>*\<close> otherwise; the three other headers are fixed.
\<close>

theorem getCorsHeaders_spec:
  "(orig \<in> {Some (lit ''http://localhost:3000''), Some (lit ''https://caduae.com''),
              Some (lit ''https://www.caduae.com'')} \<longrightarrow>
      header (getCorsHeaders nodeEnv orig) ''Access-Control-Allow-Origin'' = orig)
   \<and> (orig \<notin> {Some (lit ''http://localhost:3000''), Some (lit ''https://caduae.com''),
              Some (lit ''https://www.caduae.com'')} \<and> nodeEnv = Some (lit ''production'') \<longrightarrow>
      header (getCorsHeaders nodeEnv orig) ''Access-Control-Allow-Origin''
        = Some (lit ''https://caduae.com''))
   \<and> (orig \<notin> {Some (lit ''http://localhost:3000''), Some (lit ''https://caduae.com''),
              Some (lit ''https://www.caduae.com'')} \<and> nodeEnv \<noteq> Some (lit ''production'') \<longrightarrow>
      header (getCorsHeaders nodeEnv orig) ''Access-Control-Allow-Origin'' = Some (lit ''*''))
   \<and> header (getCorsHeaders nodeEnv orig) ''Access-Control-Allow-Methods''
        = Some (lit ''POST, OPTIONS'')
   \<and> header (getCorsHeaders nodeEnv orig) ''Access-Control-Allow-Headers''
        = Some (lit ''Content-Type'')
   \<and> header (getCorsHeaders nodeEnv orig) ''Access-Control-Max-Age'' = Some (lit ''86400'')
   \<and> length (getCorsHeaders nodeEnv orig) = 4"
proof -
  have keys: "lit ''Access-Control-Allow-Methods'' \<noteq> lit ''Access-Control-Allow-Origin''"
    "lit ''Access-Control-Allow-Headers'' \<noteq> lit ''Access-Control-Allow-Origin''"
    "lit ''Access-Control-Allow-Headers'' \<noteq> lit ''Access-Control-Allow-Methods''"
    "lit ''Access-Control-Max-Age'' \<noteq> lit ''Access-Control-Allow-Origin''"
    "lit ''Access-Control-Max-Age'' \<noteq> lit ''Access-Control-Allow-Methods''"
    "lit ''Access-Control-Max-Age'' \<noteq> lit ''Access-Control-Allow-Headers''"
    by (simp_all add: lit_def)
  have nonempty: "lit ''http://localhost:3000'' \<noteq> []" "lit ''https://caduae.com'' \<noteq> []"
    "lit ''https://www.caduae.com'' \<noteq> []"
    by (simp_all add: lit_def)
  show ?thesis
    using keys nonempty
    by (cases orig) (auto simp: getCorsHeaders_def header_def allowedOrigins_def Let_def)
qed

text \<open>
  A listed origin, an unlisted origin in production, and a request without origin outside
  production.
\<close>

theorem getCorsHeaders_spec_witness:
  "header (getCorsHeaders (Some (lit ''production'')) (Some (lit ''https://caduae.com'')))
      ''Access-Control-Allow-Origin'' = Some (lit ''https://caduae.com'')
   \<and> header (getCorsHeaders (Some (lit ''production'')) (Some (lit ''https://evil.example'')))
      ''Access-Control-Allow-Origin'' = Some (lit ''https://caduae.com'')
   \<and> header (getCorsHeaders (Some (lit ''development'')) None)
      ''Access-Control-Allow-Origin'' = Some (lit ''*'')"
proof -
  have 1: "Some (lit ''https://caduae.com'') \<in> {Some (lit ''http://localhost:3000''),
      Some (lit ''https://caduae.com''), Some (lit ''https://www.caduae.com'')}"
    by simp
  have 2: "Some (lit ''https://evil.example'') \<notin> {Some (lit ''http://localhost:3000''),
      Some (lit ''https://caduae.com''), Some (lit ''https://www.caduae.com'')}"
    by (simp add: lit_def)
  have 3: "None \<notin> {Some (lit ''http://localhost:3000''),
      Some (lit ''https://caduae.com''), Some (lit ''https://www.caduae.com'')}"
    "Some (lit ''development'') \<noteq> Some (lit ''production'')"
    by (simp_all add: lit_def)
  show ?thesis
    using getCorsHeaders_spec [of "Some (lit ''https://caduae.com'')" "Some (lit ''production'')"]
      getCorsHeaders_spec [of "Some (lit ''https://evil.example'')" "Some (lit ''production'')"]
      getCorsHeaders_spec [of None "Some (lit ''development'')"] 1 2 3
    by blast
qed

lemma map_of_filter_key:
  "map_of (filter (\<lambda>kv. fst kv \<noteq> m) kvs) k = (if k = m then None else map_of kvs k)"
  by (induction kvs) auto

lemma getProp_withoutMobile:
  "getProp (withoutMobile d) k = (if k = lit ''mobile'' then None else getProp d k)"
  by (cases d) (simp_all add: map_of_filter_key)

lemma mobile_key:
  "lit ''formType'' \<noteq> lit ''mobile''" "lit ''name'' \<noteq> lit ''mobile''"
  "lit ''email'' \<noteq> lit ''mobile''" "lit ''phone'' \<noteq> lit ''mobile''"
  "lit ''message'' \<noteq> lit ''mobile''" "lit ''product'' \<noteq> lit ''mobile''"
  by (simp_all add: lit_def)

lemma isObjectValue_withoutMobile: "isObjectValue (withoutMobile d) = isObjectValue d"
  by (cases d) (simp_all add: isObjectValue_def)

lemma validateFormData_withoutMobile: "validateFormData (withoutMobile d) = validateFormData d"
  unfolding validateFormData_firstFailure validationRules_def
  by (simp add: isObjectValue_withoutMobile formTypePresent_def formTypeKnown_def nameGiven_def
      emailGiven_def phoneGiven_def messageGiven_def productGiven_def productKnown_def
      isFormType_def getProp_withoutMobile mobile_key)

lemma formatEmailContent_withoutMobile:
  assumes "\<not> truthy (getProp d (lit ''mobile''))"
  shows "formatEmailContent (withoutMobile d) = formatEmailContent d"
proof -
  have null: "(withoutMobile d = JNull) = (d = JNull)"
    by (cases d) simp_all
  show ?thesis
    unfolding formatEmailContent_def isFormType_def null
    using assms by (simp add: getProp_withoutMobile mobile_key)
qed

lemma replaceNewlines_append:
  "replaceNewlines (a @ b) = replaceNewlines a @ replaceNewlines b"
  by (simp add: replaceNewlines_def)

lemma replaceNewlines_newline: "replaceNewlines [0x0A] = lit ''<br>''"
  by (simp add: replaceNewlines_def)

lemma replaceNewlines_plain: "0x0A \<notin> set s \<Longrightarrow> replaceNewlines s = s"
  by (induction s) (auto simp: replaceNewlines_def)

lemma replaceNewlines_no_newline: "0x0A \<notin> set (replaceNewlines s)"
  by (induction s) (auto simp: replaceNewlines_def lit_def)

text \<open>
  C7. Jane's contact form is valid; its subject is \<open>New Contact Form Submission - Jane\<close>,
  its HTML body has \<open><br>\<close> where the message has its line feed, and its text body keeps the
  line feed. For every valid contact form the message goes through the conversion in the HTML
  body and stands as it is in the text body, where the conversion replaces each line feed
  by \<open><br>\<close>, leaves everything else and leaves no line feed.
\<close>

theorem formatEmailContent_contact_newlines:
  "validateFormData janeContact = \<lparr>valid = True, error = None\<rparr>
   \<and> formatEmailContent janeContact = Inr
       \<lparr>subject = lit ''New Contact Form Submission - Jane'',
        html = lit ''\<newline>      <h2>New Contact Form Submission</h2>\<newline>      <p><strong>Name:</strong> Jane</p>\<newline>      <p><strong>Email:</strong> jane@x.com</p>\<newline>      <p><strong>Phone:</strong> 123</p>\<newline>      <p><strong>Message:</strong></p>\<newline>      <p>Hi<br>There</p>\<newline>    '',
        text_body = lit ''\<newline>New Contact Form Submission\<newline>\<newline>Name: Jane\<newline>Email: jane@x.com\<newline>Phone: 123\<newline>Message: Hi\<newline>There\<newline>    ''\<rparr>
   \<and> (valid (validateFormData d) \<and> isFormType d ''contact'' \<longrightarrow>
        (\<exists>n e p m. getProp d (lit ''name'') = Some (JStr n)
           \<and> getProp d (lit ''email'') = Some (JStr e)
           \<and> getProp d (lit ''phone'') = Some (JStr p)
           \<and> getProp d (lit ''message'') = Some (JStr m)
           \<and> formatEmailContent d = Inr
               \<lparr>subject = lit ''New Contact Form Submission - '' @ n,
                html = lit ''\<newline>      <h2>New Contact Form Submission</h2>\<newline>      <p><strong>Name:</strong> ''
                  @ n @ lit ''</p>\<newline>      <p><strong>Email:</strong> ''
                  @ e @ lit ''</p>\<newline>      <p><strong>Phone:</strong> ''
                  @ p @ lit ''</p>\<newline>      <p><strong>Message:</strong></p>\<newline>      <p>''
                  @ replaceNewlines m @ lit ''</p>\<newline>    '',
                text_body = lit ''\<newline>New Contact Form Submission\<newline>\<newline>Name: ''
                  @ n @ lit ''\<newline>Email: ''
                  @ e @ lit ''\<newline>Phone: ''
                  @ p @ lit ''\<newline>Message: ''
                  @ m @ lit ''\<newline>    ''\<rparr>))
   \<and> replaceNewlines (a @ [0x0A] @ b) = replaceNewlines a @ lit ''<br>'' @ replaceNewlines b
   \<and> (0x0A \<notin> set s \<longrightarrow> replaceNewlines s = s)
   \<and> 0x0A \<notin> set (replaceNewlines s)"
proof (intro conjI impI)
  show "validateFormData janeContact = \<lparr>valid = True, error = None\<rparr>"
    by (simp add: janeContact_valid ok_def)
  show "formatEmailContent janeContact = Inr
       \<lparr>subject = lit ''New Contact Form Submission - Jane'',
        html = lit ''\<newline>      <h2>New Contact Form Submission</h2>\<newline>      <p><strong>Name:</strong> Jane</p>\<newline>      <p><strong>Email:</strong> jane@x.com</p>\<newline>      <p><strong>Phone:</strong> 123</p>\<newline>      <p><strong>Message:</strong></p>\<newline>      <p>Hi<br>There</p>\<newline>    '',
        text_body = lit ''\<newline>New Contact Form Submission\<newline>\<newline>Name: Jane\<newline>Email: jane@x.com\<newline>Phone: 123\<newline>Message: Hi\<newline>There\<newline>    ''\<rparr>"
    using janeContact_format by (simp add: janeContent_def)
  show "replaceNewlines (a @ [0x0A] @ b) = replaceNewlines a @ lit ''<br>'' @ replaceNewlines b"
    by (simp only: replaceNewlines_append replaceNewlines_newline)
  show "0x0A \<notin> set (replaceNewlines s)"
    by (rule replaceNewlines_no_newline)
next
  assume "0x0A \<notin> set s"
  then show "replaceNewlines s = s" by (rule replaceNewlines_plain)
next
  assume "valid (validateFormData d) \<and> isFormType d ''contact''"
  then have v: "valid (validateFormData d)" and c: "isFormType d ''contact''"
    by simp_all
  from v show "\<exists>n e p m. getProp d (lit ''name'') = Some (JStr n)
           \<and> getProp d (lit ''email'') = Some (JStr e)
           \<and> getProp d (lit ''phone'') = Some (JStr p)
           \<and> getProp d (lit ''message'') = Some (JStr m)
           \<and> formatEmailContent d = Inr
               \<lparr>subject = lit ''New Contact Form Submission - '' @ n,
                html = lit ''\<newline>      <h2>New Contact Form Submission</h2>\<newline>      <p><strong>Name:</strong> ''
                  @ n @ lit ''</p>\<newline>      <p><strong>Email:</strong> ''
                  @ e @ lit ''</p>\<newline>      <p><strong>Phone:</strong> ''
                  @ p @ lit ''</p>\<newline>      <p><strong>Message:</strong></p>\<newline>      <p>''
                  @ replaceNewlines m @ lit ''</p>\<newline>    '',
                text_body = lit ''\<newline>New Contact Form Submission\<newline>\<newline>Name: ''
                  @ n @ lit ''\<newline>Email: ''
                  @ e @ lit ''\<newline>Phone: ''
                  @ p @ lit ''\<newline>Message: ''
                  @ m @ lit ''\<newline>    ''\<rparr>"
  proof (cases rule: valid_cases)
    case (contact n e p m)
    then show ?thesis using formatEmailContent_contact [of d n e p m] by blast
  next
    case (support n e p m)
    with c show ?thesis using isFormType_excl(1) by blast
  next
    case (quote n e p)
    with c show ?thesis using isFormType_excl(1) by blast
  qed
qed

text \<open>The general statement at Jane's form: the message is converted in the HTML body only.\<close>

theorem formatEmailContent_contact_newlines_witness:
  "formatEmailContent janeContact = Inr
     \<lparr>subject = lit ''New Contact Form Submission - '' @ lit ''Jane'',
      html = lit ''\<newline>      <h2>New Contact Form Submission</h2>\<newline>      <p><strong>Name:</strong> ''
        @ lit ''Jane'' @ lit ''</p>\<newline>      <p><strong>Email:</strong> ''
        @ lit ''jane@x.com'' @ lit ''</p>\<newline>      <p><strong>Phone:</strong> ''
        @ lit ''123'' @ lit ''</p>\<newline>      <p><strong>Message:</strong></p>\<newline>      <p>''
        @ replaceNewlines (lit ''Hi\<newline>There'') @ lit ''</p>\<newline>    '',
      text_body = lit ''\<newline>New Contact Form Submission\<newline>\<newline>Name: ''
        @ lit ''Jane'' @ lit ''\<newline>Email: ''
        @ lit ''jane@x.com'' @ lit ''\<newline>Phone: ''
        @ lit ''123'' @ lit ''\<newline>Message: ''
        @ lit ''Hi\<newline>There'' @ lit ''\<newline>    ''\<rparr>"
proof -
  have pre: "valid (validateFormData janeContact) \<and> isFormType janeContact ''contact''"
    by (simp add: janeContact_valid) (simp add: janeContact_def isFormType_def)
  have fields: "getProp janeContact (lit ''name'') = Some (JStr (lit ''Jane''))"
    "getProp janeContact (lit ''email'') = Some (JStr (lit ''jane@x.com''))"
    "getProp janeContact (lit ''phone'') = Some (JStr (lit ''123''))"
    "getProp janeContact (lit ''message'') = Some (JStr (lit ''Hi\<newline>There''))"
    by (simp_all add: janeContact_def lit_def)
  from formatEmailContent_contact_newlines
    [of janeContact, THEN conjunct2, THEN conjunct2, THEN conjunct1, THEN mp, OF pre]
  obtain n e p m where "getProp janeContact (lit ''name'') = Some (JStr n)"
      "getProp janeContact (lit ''email'') = Some (JStr e)"
      "getProp janeContact (lit ''phone'') = Some (JStr p)"
      "getProp janeContact (lit ''message'') = Some (JStr m)"
      "formatEmailContent janeContact = Inr
               \<lparr>subject = lit ''New Contact Form Submission - '' @ n,
                html = lit ''\<newline>      <h2>New Contact Form Submission</h2>\<newline>      <p><strong>Name:</strong> ''
                  @ n @ lit ''</p>\<newline>      <p><strong>Email:</strong> ''
                  @ e @ lit ''</p>\<newline>      <p><strong>Phone:</strong> ''
                  @ p @ lit ''</p>\<newline>      <p><strong>Message:</strong></p>\<newline>      <p>''
                  @ replaceNewlines m @ lit ''</p>\<newline>    '',
                text_body = lit ''\<newline>New Contact Form Submission\<newline>\<newline>Name: ''
                  @ n @ lit ''\<newline>Email: ''
                  @ e @ lit ''\<newline>Phone: ''
                  @ p @ lit ''\<newline>Message: ''
                  @ m @ lit ''\<newline>    ''\<rparr>"
    by (elim exE conjE)
  with fields show ?thesis by simp
qed

text \<open>
  C10. \<open>validateFormData\<close> never reads \<open>mobile\<close>: its answer is that for the payload
  without the property. A quote whose \<open>mobile\<close> is the empty string is therefore valid
  whenever it is valid without it, and it is formatted as the payload without \<open>mobile\<close> is:
  the HTML body and the text body are the templates with nothing where the Mobile line goes.
\<close>

theorem empty_mobile_as_absent:
  "validateFormData d = validateFormData (withoutMobile d)
   \<and> (valid (validateFormData (withoutMobile d)) \<and> isFormType d ''quote''
        \<and> getProp d (lit ''mobile'') = Some (JStr []) \<longrightarrow>
        valid (validateFormData d)
        \<and> formatEmailContent d = formatEmailContent (withoutMobile d)
        \<and> (\<exists>n e p. getProp d (lit ''name'') = Some (JStr n)
             \<and> getProp d (lit ''email'') = Some (JStr e)
             \<and> getProp d (lit ''product'') = Some (JStr p)
             \<and> formatEmailContent d = Inr
                 \<lparr>subject = lit ''New Quote Request - '' @ n @ lit '' - '' @ p,
                  html = lit ''\<newline>      <h2>New Quote Request</h2>\<newline>      <p><strong>Name:</strong> ''
                    @ n @ lit ''</p>\<newline>      <p><strong>Email:</strong> ''
                    @ e @ lit ''</p>\<newline>      \<newline>      <p><strong>Product:</strong> ''
                    @ p @ lit ''</p>\<newline>    '',
                  text_body = lit ''\<newline>New Quote Request\<newline>\<newline>Name: ''
                    @ n @ lit ''\<newline>Email: ''
                    @ e @ lit ''\<newline>Product: ''
                    @ p @ lit ''\<newline>    ''\<rparr>))"
proof (intro conjI impI)
  show "validateFormData d = validateFormData (withoutMobile d)"
    by (simp add: validateFormData_withoutMobile)
next
  assume a: "valid (validateFormData (withoutMobile d)) \<and> isFormType d ''quote''
        \<and> getProp d (lit ''mobile'') = Some (JStr [])"
  then have v: "valid (validateFormData d)" and q: "isFormType d ''quote''"
    and falsy: "\<not> truthy (getProp d (lit ''mobile''))"
    by (simp_all add: validateFormData_withoutMobile)
  show "valid (validateFormData d)" by (rule v)
  show "formatEmailContent d = formatEmailContent (withoutMobile d)"
    using falsy by (simp add: formatEmailContent_withoutMobile)
  from v show "\<exists>n e p. getProp d (lit ''name'') = Some (JStr n)
             \<and> getProp d (lit ''email'') = Some (JStr e)
             \<and> getProp d (lit ''product'') = Some (JStr p)
             \<and> formatEmailContent d = Inr
                 \<lparr>subject = lit ''New Quote Request - '' @ n @ lit '' - '' @ p,
                  html = lit ''\<newline>      <h2>New Quote Request</h2>\<newline>      <p><strong>Name:</strong> ''
                    @ n @ lit ''</p>\<newline>      <p><strong>Email:</strong> ''
                    @ e @ lit ''</p>\<newline>      \<newline>      <p><strong>Product:</strong> ''
                    @ p @ lit ''</p>\<newline>    '',
                  text_body = lit ''\<newline>New Quote Request\<newline>\<newline>Name: ''
                    @ n @ lit ''\<newline>Email: ''
                    @ e @ lit ''\<newline>Product: ''
                    @ p @ lit ''\<newline>    ''\<rparr>"
  proof (cases rule: valid_cases)
    case (contact n e p m)
    with q show ?thesis using isFormType_excl(3) by blast
  next
    case (support n e p m)
    with q show ?thesis using isFormType_excl(3) by blast
  next
    case (quote n e p)
    have "formatEmailContent d = Inr
                 \<lparr>subject = lit ''New Quote Request - '' @ n @ lit '' - '' @ p,
                  html = lit ''\<newline>      <h2>New Quote Request</h2>\<newline>      <p><strong>Name:</strong> ''
                    @ n @ lit ''</p>\<newline>      <p><strong>Email:</strong> ''
                    @ e @ lit ''</p>\<newline>      \<newline>      <p><strong>Product:</strong> ''
                    @ p @ lit ''</p>\<newline>    '',
                  text_body = lit ''\<newline>New Quote Request\<newline>\<newline>Name: ''
                    @ n @ lit ''\<newline>Email: ''
                    @ e @ lit ''\<newline>Product: ''
                    @ p @ lit ''\<newline>    ''\<rparr>"
      using falsy by (simp add: formatEmailContent_quote [OF quote(1-4)] lit_def)
    with quote show ?thesis by blast
  qed
qed

text \<open>The quote of A with the empty string for \<open>mobile\<close>: valid, and formatted as without it.\<close>

theorem empty_mobile_as_absent_witness:
  "valid (validateFormData (mobileQuote []))
   \<and> formatEmailContent (mobileQuote []) = formatEmailContent plainQuote"
proof -
  have w: "withoutMobile (mobileQuote []) = plainQuote"
    by (simp add: mobileQuote_def plainQuote_def lit_def)
  have pre: "valid (validateFormData (withoutMobile (mobileQuote [])))
      \<and> isFormType (mobileQuote []) ''quote''
      \<and> getProp (mobileQuote []) (lit ''mobile'') = Some (JStr [])"
    unfolding w by (simp add: plainQuote_def mobileQuote_def validate_eval)
  from empty_mobile_as_absent [of "mobileQuote []", THEN conjunct2, THEN mp, OF pre]
  have "valid (validateFormData (mobileQuote []))
      \<and> formatEmailContent (mobileQuote []) = formatEmailContent (withoutMobile (mobileQuote []))"
    by (elim conjE) (intro conjI)
  then show ?thesis by (simp add: w)
qed

text \<open>
  C6, as the code has it. The name is interpolated as it is, line breaks included, so a line
  of the name after its first becomes a line of the text body. For every valid quote with no
  \<open>mobile\<close> property, a line of the text body starts with \<open>Mobile:\<close> exactly when a line
  of the name after its first does; there is none when the name has no such line. For every
  valid quote whose \<open>mobile\<close> is truthy and can be converted to a string (every non-empty
  string, non-zero number and \<open>true\<close>, and every array and object without an own
  \<open>toString\<close> property inside), a line of the text body starts with \<open>Mobile:\<close>.
\<close>

theorem quote_text_mobile_line:
  "(valid (validateFormData d) \<and> isFormType d ''quote'' \<and> getProp d (lit ''mobile'') = None
      \<and> getProp d (lit ''name'') = Some (JStr n) \<longrightarrow>
      (\<exists>content. formatEmailContent d = Inr content
         \<and> hasLineStarting (lit ''Mobile:'') (text_body content)
             = hasLaterLineStarting (lit ''Mobile:'') n))
   \<and> (valid (validateFormData d) \<and> isFormType d ''quote''
      \<and> truthy (getProp d (lit ''mobile'')) \<and> mobileFormats d \<longrightarrow>
      (\<exists>content. formatEmailContent d = Inr content
         \<and> hasLineStarting (lit ''Mobile:'') (text_body content)))"
proof (intro conjI impI)
  assume a: "valid (validateFormData d) \<and> isFormType d ''quote'' \<and> getProp d (lit ''mobile'') = None
      \<and> getProp d (lit ''name'') = Some (JStr n)"
  then have v: "valid (validateFormData d)" and q: "isFormType d ''quote''" by simp_all
  from v show "\<exists>content. formatEmailContent d = Inr content
         \<and> hasLineStarting (lit ''Mobile:'') (text_body content)
             = hasLaterLineStarting (lit ''Mobile:'') n"
  proof (cases rule: valid_cases)
    case (contact n e p m)
    with q show ?thesis using isFormType_excl(3) by blast
  next
    case (support n e p m)
    with q show ?thesis using isFormType_excl(3) by blast
  next
    case (quote n' e p)
    with a have n: "n' = n" by simp
    have "hasLineStarting (lit ''Mobile:'')
        (lit ''\<newline>New Quote Request\<newline>\<newline>Name: '' @ n @ lit ''\<newline>Email: ''
            @ e @ lit ''\<newline>'' @ [] @ lit ''Product: '' @ p @ lit ''\<newline>    '')
        = hasLaterLineStarting (lit ''Mobile:'') n"
    proof (rule mobile_line_from_name)
      show "list_all (\<lambda>c. \<not> isLineTerminator c) e" using quote(6) by (rule email_chars)
      show "list_all (\<lambda>c. \<not> isLineTerminator c) p" using quote(5) by (rule product_chars)
    qed
    with a show ?thesis
      by (simp add: formatEmailContent_quote [OF quote(1-4)] n)
  qed
next
  assume a: "valid (validateFormData d) \<and> isFormType d ''quote''
      \<and> truthy (getProp d (lit ''mobile'')) \<and> mobileFormats d"
  then have v: "valid (validateFormData d)" and q: "isFormType d ''quote''"
    and t: "truthy (getProp d (lit ''mobile''))" by simp_all
  from a obtain s where s: "interp (getProp d (lit ''mobile'')) = Inr s"
    by (auto simp: mobileFormats_def split: sum.splits)
  from v show "\<exists>content. formatEmailContent d = Inr content
         \<and> hasLineStarting (lit ''Mobile:'') (text_body content)"
  proof (cases rule: valid_cases)
    case (contact n e p m)
    with q show ?thesis using isFormType_excl(3) by blast
  next
    case (support n e p m)
    with q show ?thesis using isFormType_excl(3) by blast
  next
    case (quote n e p)
    from t s mobile_line_in_text [of n e s p] show ?thesis
      by (simp add: formatEmailContent_quote [OF quote(1-4)])
  qed
qed

text \<open>
  The quote of A without \<open>mobile\<close> has no such line; with the mobile 555, and with a
  mobile that is a number, it has one.
\<close>

theorem quote_text_mobile_line_witness:
  "(\<exists>content. formatEmailContent plainQuote = Inr content
       \<and> \<not> hasLineStarting (lit ''Mobile:'') (text_body content))
   \<and> (\<exists>content. formatEmailContent (mobileQuote (lit ''555'')) = Inr content
       \<and> hasLineStarting (lit ''Mobile:'') (text_body content))
   \<and> (\<exists>content. formatEmailContent numberMobileQuote = Inr content
       \<and> hasLineStarting (lit ''Mobile:'') (text_body content))"
proof -
  have pre1: "valid (validateFormData plainQuote) \<and> isFormType plainQuote ''quote''
      \<and> getProp plainQuote (lit ''mobile'') = None
      \<and> getProp plainQuote (lit ''name'') = Some (JStr (lit ''A''))"
    by (simp add: plainQuote_def validate_eval)
  have none: "\<not> hasLaterLineStarting (lit ''Mobile:'') (lit ''A'')"
    by (simp add: hasLaterLineStarting_def lit_def isLineTerminator_def)
  have pre2: "valid (validateFormData (mobileQuote (lit ''555'')))
      \<and> isFormType (mobileQuote (lit ''555'')) ''quote''
      \<and> truthy (getProp (mobileQuote (lit ''555'')) (lit ''mobile''))
      \<and> mobileFormats (mobileQuote (lit ''555''))"
    by (simp add: mobileQuote_def validate_eval mobileFormats_def interp_def)
  have pre3: "valid (validateFormData numberMobileQuote)
      \<and> isFormType numberMobileQuote ''quote''
      \<and> truthy (getProp numberMobileQuote (lit ''mobile''))
      \<and> mobileFormats numberMobileQuote"
    by (simp add: numberMobileQuote_def validate_eval mobileFormats_def interp_def)
  from quote_text_mobile_line [of plainQuote "lit ''A''", THEN conjunct1, THEN mp, OF pre1]
  obtain content where "formatEmailContent plainQuote = Inr content"
      "hasLineStarting (lit ''Mobile:'') (text_body content)
         = hasLaterLineStarting (lit ''Mobile:'') (lit ''A'')"
    by (elim exE conjE)
  with none have 1: "\<exists>content. formatEmailContent plainQuote = Inr content
       \<and> \<not> hasLineStarting (lit ''Mobile:'') (text_body content)"
    by simp
  show ?thesis
    using 1
      quote_text_mobile_line [of "mobileQuote (lit ''555'')", THEN conjunct2, THEN mp, OF pre2]
      quote_text_mobile_line [of numberMobileQuote, THEN conjunct2, THEN mp, OF pre3]
    by (intro conjI)
qed

text \<open>
  The claim as stated fails in both halves. A valid quote with no \<open>mobile\<close> property
  whose name holds a line feed followed by \<open>Mobile: 1\<close> has the line \<open>Mobile: 1\<close> in its
  text body. A valid quote whose \<open>mobile\<close> is an object with an own \<open>toString\<close> property
  has its mobile set, and no text body is composed for it: formatting raises.
\<close>

theorem quote_text_mobile_line_counterexample:
  "valid (validateFormData injectedQuote)
   \<and> isFormType injectedQuote ''quote''
   \<and> getProp injectedQuote (lit ''mobile'') = None
   \<and> formatEmailContent injectedQuote = Inr
       \<lparr>subject = lit ''New Quote Request - A\<newline>Mobile: 1 - ARCHITECT'',
        html = lit ''\<newline>      <h2>New Quote Request</h2>\<newline>      <p><strong>Name:</strong> A\<newline>Mobile: 1</p>\<newline>      <p><strong>Email:</strong> a@b.co</p>\<newline>      \<newline>      <p><strong>Product:</strong> ARCHITECT</p>\<newline>    '',
        text_body = lit ''\<newline>New Quote Request\<newline>\<newline>Name: A\<newline>Mobile: 1\<newline>Email: a@b.co\<newline>Product: ARCHITECT\<newline>    ''\<rparr>
   \<and> hasLineStarting (lit ''Mobile:'')
        (lit ''\<newline>New Quote Request\<newline>\<newline>Name: A\<newline>Mobile: 1\<newline>Email: a@b.co\<newline>Product: ARCHITECT\<newline>    '')
   \<and> valid (validateFormData toStringMobileQuote)
   \<and> isFormType toStringMobileQuote ''quote''
   \<and> getProp toStringMobileQuote (lit ''mobile'') = Some (JObj [(lit ''toString'', JNull)])
   \<and> formatEmailContent toStringMobileQuote
       = Inl (ErrorInstance (lit ''Cannot convert object to primitive value''))"
proof (intro conjI)
  show "valid (validateFormData injectedQuote)"
    by (simp add: injectedQuote_def validate_eval)
  show "isFormType injectedQuote ''quote''"
    by (simp add: injectedQuote_def isFormType_def)
  show "getProp injectedQuote (lit ''mobile'') = None"
    by (simp add: injectedQuote_def lit_def)
  show "formatEmailContent injectedQuote = Inr
       \<lparr>subject = lit ''New Quote Request - A\<newline>Mobile: 1 - ARCHITECT'',
        html = lit ''\<newline>      <h2>New Quote Request</h2>\<newline>      <p><strong>Name:</strong> A\<newline>Mobile: 1</p>\<newline>      <p><strong>Email:</strong> a@b.co</p>\<newline>      \<newline>      <p><strong>Product:</strong> ARCHITECT</p>\<newline>    '',
        text_body = lit ''\<newline>New Quote Request\<newline>\<newline>Name: A\<newline>Mobile: 1\<newline>Email: a@b.co\<newline>Product: ARCHITECT\<newline>    ''\<rparr>"
    by (simp add: injectedQuote_def formatEmailContent_def isFormType_def interp_def bindE_def
        lit_def)
  show "hasLineStarting (lit ''Mobile:'')
        (lit ''\<newline>New Quote Request\<newline>\<newline>Name: A\<newline>Mobile: 1\<newline>Email: a@b.co\<newline>Product: ARCHITECT\<newline>    '')"
    by (simp add: hasLineStarting_def lit_def isLineTerminator_def)
  show "valid (validateFormData toStringMobileQuote)"
    by (simp add: toStringMobileQuote_valid)
  show "isFormType toStringMobileQuote ''quote''"
    by (simp add: toStringMobileQuote_def isFormType_def)
  show "getProp toStringMobileQuote (lit ''mobile'') = Some (JObj [(lit ''toString'', JNull)])"
    by (simp add: toStringMobileQuote_def lit_def)
  show "formatEmailContent toStringMobileQuote
       = Inl (ErrorInstance (lit ''Cannot convert object to primitive value''))"
    by (simp add: toStringMobileQuote_format notPrimitive_def)
qed

end
